theory Spec2Isabelle
  imports Complex_Main
begin

section \<open>Floating-point values and strconv.ParseFloat\<close>

text \<open>
  A Go \<open>float64\<close> is a finite value, an infinity or NaN. Finite values are represented
  by the rational number they denote; rounding to binary64 is not modelled. The bounds
  the program compares against (90, 180 and their negatives) are exactly representable
  and rounding is monotone, so a comparison of a parsed decimal with one of them has the
  same outcome before and after rounding.
\<close>

datatype float64 = Fin rat | PInf | NInf | NaN

text \<open>The IEEE 754 comparison \<open><\<close>; Go's \<open>a > b\<close> is \<open>f64_less b a\<close>.
  Every comparison with NaN is false.\<close>

fun f64_less :: "float64 \<Rightarrow> float64 \<Rightarrow> bool" where
  "f64_less (Fin a) (Fin b) = (a < b)"
| "f64_less (Fin a) PInf = True"
| "f64_less NInf (Fin b) = True"
| "f64_less NInf PInf = True"
| "f64_less _ _ = False"

text \<open>
  \<open>strconv.ParseFloat\<close> belongs to the Go standard library. The functions of the
  program take it as the parameter \<open>pf\<close> (\<open>None\<close> when it returns an error), and
  every general theorem holds for an arbitrary \<open>pf\<close>. For the concrete scenarios,
  \<open>ParseFloat\<close> below models the library function on its plain decimal fragment (an
  optional sign, digits with an optional fraction, at least one digit) and on the
  special values \<open>NaN\<close>, \<open>Inf\<close>, \<open>+Inf\<close> and \<open>-Inf\<close>, which the library accepts without
  error. Exponents, hexadecimal mantissas, digit separators and the other spellings of
  the special values are outside the fragment.
\<close>

definition is_digit :: "char \<Rightarrow> bool" where
  "is_digit c = (c \<in> set ''0123456789'')"

definition digit_val :: "char \<Rightarrow> nat" where
  "digit_val c = of_char c - 48"

definition digits_val :: "string \<Rightarrow> nat" where
  "digits_val ds = foldl (\<lambda>n c. 10 * n + digit_val c) 0 ds"

definition parse_mantissa :: "string \<Rightarrow> rat option" where
  "parse_mantissa s =
     (let ip = takeWhile is_digit s; rest = dropWhile is_digit s
      in case rest of
           [] \<Rightarrow> (if ip = [] then None else Some (of_nat (digits_val ip)))
         | c # fp \<Rightarrow>
             (if c = CHR ''.'' \<and> list_all is_digit fp \<and> (ip \<noteq> [] \<or> fp \<noteq> [])
              then Some (of_nat (digits_val (ip @ fp)) / of_nat (10 ^ length fp))
              else None))"

definition ParseFloat :: "string \<Rightarrow> float64 option" where
  "ParseFloat s =
     (if s = ''NaN'' then Some NaN
      else if s = ''Inf'' \<or> s = ''+Inf'' then Some PInf
      else if s = ''-Inf'' then Some NInf
      else case s of
             [] \<Rightarrow> None
           | c # r \<Rightarrow>
               (if c = CHR ''-'' then map_option (\<lambda>q. Fin (- q)) (parse_mantissa r)
                else if c = CHR ''+'' then map_option Fin (parse_mantissa r)
                else map_option Fin (parse_mantissa s)))"

section \<open>The record parser of the import tool\<close>

record LocationRecord =
  Prefecture :: string
  Municipality :: string
  Address1 :: string
  Address2 :: string
  BlockLot :: string
  Lat :: float64
  Lon :: float64

text \<open>
  The file is read through \<open>encoding/csv\<close> with \<open>FieldsPerRecord = -1\<close>. A file is
  modelled by what the successive calls of \<open>reader.Read()\<close> return: a record (its
  fields) or an error with its message. Reading past the last element returns the
  error whose message is \<open>EOF\<close>.
\<close>

datatype csv_read = Record "string list" | ReadError string

type_synonym csv_stream = "csv_read list"

text \<open>The errors \<open>parseCSV\<close> creates with \<open>fmt.Errorf\<close>, one constructor for each
  format string, carrying the formatted arguments.\<close>

datatype parse_error =
    OpenFailed
  | HeaderFailed string
  | ReadFailed string
  | InvalidRecordLength nat
  | InvalidLatitude string
  | InvalidLongitude string

text \<open>The loop \<open>for { record, err := reader.Read() ... }\<close> of \<open>parseCSV\<close>: \<open>records\<close>
  is the slice built so far.\<close>

fun parse_rows ::
  "(string \<Rightarrow> float64 option) \<Rightarrow> csv_stream \<Rightarrow> LocationRecord list
     \<Rightarrow> parse_error + LocationRecord list" where
  "parse_rows pf [] records = Inr records"
| "parse_rows pf (ReadError e # rest) records =
     (if e = ''EOF'' then Inr records else Inl (ReadFailed e))"
| "parse_rows pf (Record row # rest) records =
     (if length row < 11 then Inl (InvalidRecordLength (length row))
      else case pf (row ! 9) of
             None \<Rightarrow> Inl (InvalidLatitude (row ! 9))
           | Some lat \<Rightarrow>
               (case pf (row ! 10) of
                  None \<Rightarrow> Inl (InvalidLongitude (row ! 10))
                | Some lon \<Rightarrow>
                    parse_rows pf rest
                      (records @
                        [\<lparr>Prefecture = row ! 0, Municipality = row ! 1, Address1 = row ! 2,
                          Address2 = row ! 3, BlockLot = row ! 4, Lat = lat, Lon = lon\<rparr>])))"

text \<open>\<open>parseCSV(filePath)\<close>: \<open>fs\<close> is the file system, \<open>None\<close> where \<open>os.Open\<close>
  fails. The first read is the header; its fields are dropped.\<close>

definition parseCSV ::
  "(string \<Rightarrow> csv_stream option) \<Rightarrow> (string \<Rightarrow> float64 option) \<Rightarrow> string
     \<Rightarrow> parse_error + LocationRecord list" where
  "parseCSV fs pf filePath =
     (case fs filePath of
        None \<Rightarrow> Inl OpenFailed
      | Some rd \<Rightarrow>
          (case rd of
             [] \<Rightarrow> Inl (HeaderFailed ''EOF'')
           | ReadError e # rest \<Rightarrow> Inl (HeaderFailed e)
           | Record header # rest \<Rightarrow> parse_rows pf rest []))"

section \<open>The reference store as the import tool sees it\<close>

text \<open>
  The state behind the connection \<open>conn\<close>: the rows of table \<open>locations\<close> in insertion
  order (the columns written by \<open>insertRecords\<close>; the point is kept as the record's
  longitude and latitude) and the rows of the ledger table \<open>processed_files\<close> as
  (\<open>file_path\<close>, \<open>record_count\<close>); the generated keys and the timestamp are left out.
\<close>

record database =
  locations :: "LocationRecord list"
  processed_files :: "(string \<times> nat) list"

text \<open>
  Every operation on the connection can fail (connectivity, a constraint). Whether it
  does is outside the program, so each operation takes a flag \<open>fails\<close>. Each
  operation is one SQL statement: when it fails it leaves the tables as they were.
  A result \<open>None\<close> is the Go error.
\<close>

text \<open>\<open>SELECT EXISTS(SELECT 1 FROM processed_files WHERE file_path = $1)\<close>\<close>

definition isFileProcessed :: "bool \<Rightarrow> database \<Rightarrow> string \<Rightarrow> bool option" where
  "isFileProcessed fails conn filePath =
     (if fails then None else Some (filePath \<in> set (map fst (processed_files conn))))"

text \<open>\<open>INSERT INTO processed_files (file_path, record_count) VALUES ($1, $2)
  ON CONFLICT (file_path) DO NOTHING\<close>\<close>

definition markFileProcessed :: "bool \<Rightarrow> database \<Rightarrow> string \<Rightarrow> nat \<Rightarrow> database option" where
  "markFileProcessed fails conn filePath recordCount =
     (if fails then None
      else if filePath \<in> set (map fst (processed_files conn)) then Some conn
      else Some (conn\<lparr>processed_files := processed_files conn @ [(filePath, recordCount)]\<rparr>))"

text \<open>\<open>conn.CopyFrom\<close> of all records into \<open>locations\<close>, one row for each record.\<close>

definition insertRecords :: "bool \<Rightarrow> database \<Rightarrow> LocationRecord list \<Rightarrow> database option" where
  "insertRecords fails conn records =
     (if fails then None else Some (conn\<lparr>locations := locations conn @ records\<rparr>))"

section \<open>Standard output of the import tool\<close>

text \<open>One constructor for each \<open>fmt.Printf\<close>/\<open>fmt.Println\<close> of the tool, with the
  values it formats. The text of the sample geometry is not kept.\<close>

datatype verify_error = CountFailed | CountMismatch nat nat | GeomCheckFailed

datatype msg =
    ErrFlagRequired
  | ErrBothFlags
  | ErrLoadingConfig
  | ErrConnecting
  | ErrCreatingTables
  | StartingFile string
  | ErrParsingCSV parse_error
  | Parsed nat
  | ErrInserting
  | ErrVerifying verify_error
  | SuccessImported nat
  | StartingDirectory string
  | ErrFindingFiles
  | Found nat
  | ProcessingFile string
  | ErrCheckingProcessed
  | SkippingProcessed string
  | ErrParsingFile string parse_error
  | ParsedFrom nat string
  | ErrInsertingFrom string
  | ErrMarking
  | SuccessProcessed string nat
  | DirectoryCompleted nat nat nat
  | SampleGeom
  | Verified nat nat

text \<open>\<open>verifyImport(conn, expectedCount)\<close>: the error, if any, and what it printed.
  \<open>SELECT COUNT(*) FROM locations\<close> is the number of rows. The probe
  \<open>SELECT ST_AsText(geom) FROM locations LIMIT 1\<close> is scanned with \<open>QueryRow(...).Scan\<close>,
  which returns the error \<open>no rows in result set\<close> on an empty table.\<close>

definition verifyImport ::
  "bool \<Rightarrow> bool \<Rightarrow> database \<Rightarrow> nat \<Rightarrow> verify_error option \<times> msg list" where
  "verifyImport count_fails sample_fails conn expectedCount =
     (if count_fails then (Some CountFailed, [])
      else let count = length (locations conn)
           in if count < expectedCount then (Some (CountMismatch expectedCount count), [])
              else if sample_fails \<or> locations conn = [] then (Some GeomCheckFailed, [])
              else (None, [SampleGeom, Verified count expectedCount]))"

section \<open>Discovery of the input files\<close>

text \<open>\<open>filepath.Ext\<close>: the suffix from the last dot of the last path element,
  empty when that element has no dot. The scan runs from the end of the path.\<close>

fun ext_scan :: "string \<Rightarrow> string \<Rightarrow> string" where
  "ext_scan [] acc = ''''"
| "ext_scan (c # cs) acc =
     (if c = CHR ''/'' then ''''
      else if c = CHR ''.'' then c # acc
      else ext_scan cs (c # acc))"

definition Ext :: "string \<Rightarrow> string" where
  "Ext path = ext_scan (rev path) []"

text \<open>What \<open>filepath.Walk\<close> hands to the callback, in its order: a path with
  \<open>info.IsDir()\<close>, or an error.\<close>

datatype walk_entry = Entry string bool | WalkError

fun walk_collect :: "walk_entry list \<Rightarrow> string list \<Rightarrow> string list \<times> bool" where
  "walk_collect [] found = (found, False)"
| "walk_collect (WalkError # rest) found = (found, True)"
| "walk_collect (Entry path isDir # rest) found =
     walk_collect rest (if \<not> isDir \<and> Ext path = ''.csv'' then found @ [path] else found)"

definition findCSVFiles :: "(string \<Rightarrow> walk_entry list) \<Rightarrow> string \<Rightarrow> string list \<times> bool" where
  "findCSVFiles walk_dir directory = walk_collect (walk_dir directory) []"

section \<open>The ingestion coordinator\<close>

text \<open>Everything outside the program that a run depends on: the files, the
  library's \<open>ParseFloat\<close>, the directory walk, whether the start-up steps fail, and
  whether the store fails on \<open>isFileProcessed\<close> (\<open>query_fails\<close>), on \<open>insertRecords\<close>
  (\<open>copy_fails\<close>) and on \<open>markFileProcessed\<close> (\<open>exec_fails\<close>) for a given file, and on
  the two queries of \<open>verifyImport\<close>.\<close>

record world =
  files :: "string \<Rightarrow> csv_stream option"
  parse_float :: "string \<Rightarrow> float64 option"
  walk :: "string \<Rightarrow> walk_entry list"
  load_config_fails :: bool
  connect_fails :: bool
  create_tables_fails :: bool
  query_fails :: "string \<Rightarrow> bool"
  copy_fails :: "string \<Rightarrow> bool"
  exec_fails :: "string \<Rightarrow> bool"
  count_fails :: bool
  sample_fails :: bool

text \<open>The variables of \<open>main\<close> with the store and the standard output.\<close>

record import_run =
  conn :: database
  totalRecords :: nat
  processedFiles :: nat
  failedFiles :: nat
  stdout :: "msg list"

definition print :: "import_run \<Rightarrow> msg \<Rightarrow> import_run" where
  "print r m = r\<lparr>stdout := stdout r @ [m]\<rparr>"

text \<open>The body of \<open>for _, filePath := range files\<close>; each \<open>continue\<close> is a branch
  that returns.\<close>

definition process_file :: "world \<Rightarrow> import_run \<Rightarrow> string \<Rightarrow> import_run" where
  "process_file w r filePath =
     (let r1 = print r (ProcessingFile filePath)
      in (case isFileProcessed (query_fails w filePath) (conn r1) filePath of
            None \<Rightarrow> (print r1 ErrCheckingProcessed)\<lparr>failedFiles := failedFiles r1 + 1\<rparr>
          | Some processed \<Rightarrow>
              (if processed then print r1 (SkippingProcessed filePath)
               else (case parseCSV (files w) (parse_float w) filePath of
                       Inl e \<Rightarrow>
                         (print r1 (ErrParsingFile filePath e))
                           \<lparr>failedFiles := failedFiles r1 + 1\<rparr>
                     | Inr records \<Rightarrow>
                         (let r2 = print r1 (ParsedFrom (length records) filePath)
                          in (case insertRecords (copy_fails w filePath) (conn r2) records of
                                None \<Rightarrow>
                                  (print r2 (ErrInsertingFrom filePath))
                                    \<lparr>failedFiles := failedFiles r2 + 1\<rparr>
                              | Some c \<Rightarrow>
                                  (let r3 = r2\<lparr>conn := c\<rparr>;
                                       r4 = (case markFileProcessed (exec_fails w filePath)
                                                    (conn r3) filePath (length records) of
                                               None \<Rightarrow> print r3 ErrMarking
                                             | Some c' \<Rightarrow> r3\<lparr>conn := c'\<rparr>)
                                   in print
                                        (r4\<lparr>totalRecords := totalRecords r4 + length records,
                                            processedFiles := processedFiles r4 + 1\<rparr>)
                                        (SuccessProcessed filePath (length records)))))))))"

text \<open>The loop over the discovered files.\<close>

fun process_files :: "world \<Rightarrow> import_run \<Rightarrow> string list \<Rightarrow> import_run" where
  "process_files w r [] = r"
| "process_files w r (filePath # rest) = process_files w (process_file w r filePath) rest"

text \<open>The branch \<open>else\<close> of \<open>main\<close> (directory import): the exit code and the final
  state.\<close>

definition import_directory :: "world \<Rightarrow> import_run \<Rightarrow> string \<Rightarrow> nat \<times> import_run" where
  "import_directory w r directory =
     (let r1 = print r (StartingDirectory directory)
      in case findCSVFiles (walk w) directory of
           (found, True) \<Rightarrow> (1, print r1 ErrFindingFiles)
         | (found, False) \<Rightarrow>
             let r2 = process_files w (print r1 (Found (length found))) found
             in (0, print r2
                      (DirectoryCompleted (processedFiles r2) (failedFiles r2) (totalRecords r2))))"

text \<open>The branch \<open>if *file != ""\<close> of \<open>main\<close> (single file import).\<close>

definition import_file :: "world \<Rightarrow> import_run \<Rightarrow> string \<Rightarrow> nat \<times> import_run" where
  "import_file w r file =
     (let r1 = print r (StartingFile file)
      in (case parseCSV (files w) (parse_float w) file of
            Inl e \<Rightarrow> (1, print r1 (ErrParsingCSV e))
          | Inr records \<Rightarrow>
              (let r2 = print r1 (Parsed (length records))
               in (case insertRecords (copy_fails w file) (conn r2) records of
                     None \<Rightarrow> (1, print r2 ErrInserting)
                   | Some c \<Rightarrow>
                       (case verifyImport (count_fails w) (sample_fails w) c (length records) of
                          (Some e, ms) \<Rightarrow>
                            (1, print (r2\<lparr>conn := c, stdout := stdout r2 @ ms\<rparr>)
                                  (ErrVerifying e))
                        | (None, ms) \<Rightarrow>
                            (0, print (r2\<lparr>conn := c, stdout := stdout r2 @ ms\<rparr>)
                                  (SuccessImported (length records))))))))"

text \<open>\<open>main\<close> of the import tool, started with the flags \<open>--file\<close> and \<open>--directory\<close>
  (empty when not given) on the store \<open>db\<close>: the exit code and the final state.\<close>

definition main :: "world \<Rightarrow> string \<Rightarrow> string \<Rightarrow> database \<Rightarrow> nat \<times> import_run" where
  "main w file directory db =
     (let r = \<lparr>conn = db, totalRecords = 0, processedFiles = 0, failedFiles = 0, stdout = []\<rparr>
      in if file = '''' \<and> directory = '''' then (1, print r ErrFlagRequired)
         else if file \<noteq> '''' \<and> directory \<noteq> '''' then (1, print r ErrBothFlags)
         else if load_config_fails w then (1, print r ErrLoadingConfig)
         else if connect_fails w then (1, print r ErrConnecting)
         else if create_tables_fails w then (1, print r ErrCreatingTables)
         else if file \<noteq> '''' then import_file w r file
         else import_directory w r directory)"

section \<open>The query side: models, repository, services, handlers\<close>

text \<open>\<open>models.Location\<close>; the address fields carry the prefix \<open>loc_\<close> to keep them
  apart from the fields of \<open>LocationRecord\<close>.\<close>

record Location =
  ID :: int
  loc_Prefecture :: string
  loc_Municipality :: string
  loc_Address1 :: string
  loc_Address2 :: string
  loc_BlockLot :: string
  Latitude :: float64
  Longitude :: float64

subsection \<open>Repository (PostgreSQL)\<close>

text \<open>
  The storage engine behind the pool: the rows of \<open>locations\<close> as the two \<open>SELECT\<close>
  statements project them, the engine's own operators (\<open>@@\<close> with \<open>to_tsquery\<close>,
  \<open>ts_rank\<close>, \<open>ST_DWithin\<close> at 10000 metres, the distance operator \<open><->\<close>), which the
  program does not define, and whether a statement fails.
\<close>

datatype search_fault = QueryFault | ScanFault | RowsFault

record engine =
  rows :: "Location list"
  ts_match :: "string \<Rightarrow> Location \<Rightarrow> bool"
  ts_rank :: "string \<Rightarrow> Location \<Rightarrow> rat"
  dwithin :: "float64 \<Rightarrow> float64 \<Rightarrow> Location \<Rightarrow> bool"
  knn_distance :: "float64 \<Rightarrow> float64 \<Rightarrow> Location \<Rightarrow> rat"
  search_fault :: "string \<Rightarrow> search_fault option"
  nearest_fails :: "float64 \<Rightarrow> float64 \<Rightarrow> bool"

text \<open>The errors the repository creates, one constructor for each format string.\<close>

datatype repo_error =
    SearchQueryFailed
  | ScanLocationFailed
  | IteratingRowsFailed
  | NoLocationFound
  | SpatialQueryFailed

text \<open>\<open>SearchLocationsByText\<close>: the statement
  \<open>SELECT ... FROM locations WHERE full_address_tsvector @@ to_tsquery('japanese', $1)
  ORDER BY ts_rank(full_address_tsvector, to_tsquery('japanese', $1)) DESC LIMIT 10\<close>
  and the loop that scans its rows.\<close>

definition search_statement :: "engine \<Rightarrow> string \<Rightarrow> Location list" where
  "search_statement e query =
     take 10 (rev (sort_key (ts_rank e query) (filter (ts_match e query) (rows e))))"

definition SearchLocationsByText :: "engine \<Rightarrow> string \<Rightarrow> repo_error + Location list" where
  "SearchLocationsByText e query =
     (case search_fault e query of
        Some QueryFault \<Rightarrow> Inl SearchQueryFailed
      | Some ScanFault \<Rightarrow> Inl ScanLocationFailed
      | Some RowsFault \<Rightarrow> Inl IteratingRowsFailed
      | None \<Rightarrow> Inr (search_statement e query))"

text \<open>\<open>FindNearestLocation\<close>: the statement
  \<open>SELECT ... FROM locations WHERE ST_DWithin(geom, point, 10000)
  ORDER BY geom <-> point LIMIT 1\<close> read with \<open>QueryRow(...).Scan\<close>. The Go result
  \<open>(*models.Location, error)\<close> is \<open>Inl err\<close> for \<open>(nil, err)\<close>, \<open>Inr (Some loc)\<close> for
  \<open>(&loc, nil)\<close> and \<open>Inr None\<close> for \<open>(nil, nil)\<close>. An empty result is the error
  \<open>no rows in result set\<close>, which the repository turns into its own error.\<close>

definition nearest_statement :: "engine \<Rightarrow> float64 \<Rightarrow> float64 \<Rightarrow> Location list" where
  "nearest_statement e lat lon =
     take 1 (sort_key (knn_distance e lat lon) (filter (dwithin e lat lon) (rows e)))"

definition FindNearestLocation ::
  "engine \<Rightarrow> float64 \<Rightarrow> float64 \<Rightarrow> repo_error + Location option" where
  "FindNearestLocation e lat lon =
     (if nearest_fails e lat lon then Inl SpatialQueryFailed
      else (case nearest_statement e lat lon of
              [] \<Rightarrow> Inl NoLocationFound
            | loc # rest \<Rightarrow> Inr (Some loc)))"

subsection \<open>Services\<close>

text \<open>
  A service holds a repository behind an interface (the real one or a mock). A call
  of the repository is an effect, so a repository is a function on a state \<open>'s\<close> of
  its own (for a mock, the calls it has recorded), and the service returns the state
  with its result. The errors of the services, one constructor for each format string;
  \<open>SearchFailed\<close> and \<open>NearestFailed\<close> wrap the repository's error.
\<close>

datatype 'e service_error =
    AddressEmpty
  | InvalidLatitudeArg float64
  | InvalidLongitudeArg float64
  | SearchFailed 'e
  | NearestFailed 'e

definition Geocode ::
  "('s \<Rightarrow> string \<Rightarrow> ('e + Location list) \<times> 's) \<Rightarrow> 's \<Rightarrow> string
     \<Rightarrow> ('e service_error + Location list) \<times> 's" where
  "Geocode repo s address =
     (if address = '''' then (Inl AddressEmpty, s)
      else (case repo s address of
              (Inl err, s') \<Rightarrow> (Inl (SearchFailed err), s')
            | (Inr locs, s') \<Rightarrow> (Inr locs, s')))"

definition ReverseGeocode ::
  "('s \<Rightarrow> float64 \<Rightarrow> float64 \<Rightarrow> ('e + Location option) \<times> 's) \<Rightarrow> 's \<Rightarrow> float64 \<Rightarrow> float64
     \<Rightarrow> ('e service_error + Location option) \<times> 's" where
  "ReverseGeocode repo s lat lon =
     (if f64_less lat (Fin (- 90)) \<or> f64_less (Fin 90) lat
      then (Inl (InvalidLatitudeArg lat), s)
      else if f64_less lon (Fin (- 180)) \<or> f64_less (Fin 180) lon
      then (Inl (InvalidLongitudeArg lon), s)
      else (case repo s lat lon of
              (Inl err, s') \<Rightarrow> (Inl (NearestFailed err), s')
            | (Inr location, s') \<Rightarrow> (Inr location, s')))"

subsection \<open>Handlers\<close>

text \<open>A request is its query parameters; \<open>c.Query(key)\<close> is the empty string for a
  parameter that is absent. A response is the status code and the JSON body.\<close>

definition Query :: "(string \<rightharpoonup> string) \<Rightarrow> string \<Rightarrow> string" where
  "Query c key = (case c key of None \<Rightarrow> '''' | Some v \<Rightarrow> v)"

datatype error_text =
    MissingParameterQ
  | MissingParametersLatLon
  | InvalidLatitudeFormat
  | InvalidLongitudeFormat
  | InternalServerError
  | NoAddressFound

datatype body = ErrorBody error_text | LocationBody Location | LocationsBody "Location list"

definition StatusOK :: nat where "StatusOK = 200"
definition StatusBadRequest :: nat where "StatusBadRequest = 400"
definition StatusNotFound :: nat where "StatusNotFound = 404"
definition StatusInternalServerError :: nat where "StatusInternalServerError = 500"

text \<open>\<open>GeoCodeHandler.GeoCode\<close>\<close>

definition GeoCode ::
  "('s \<Rightarrow> string \<Rightarrow> ('e + Location list) \<times> 's) \<Rightarrow> 's \<Rightarrow> (string \<rightharpoonup> string)
     \<Rightarrow> (nat \<times> body) \<times> 's" where
  "GeoCode service s c =
     (let query = Query c ''q''
      in if query = '''' then ((StatusBadRequest, ErrorBody MissingParameterQ), s)
         else (case service s query of
                 (Inl err, s') \<Rightarrow> ((StatusInternalServerError, ErrorBody InternalServerError), s')
               | (Inr locs, s') \<Rightarrow> ((StatusOK, LocationsBody locs), s')))"

text \<open>\<open>ReverseGeocodeHandler.ReverseGeocode\<close>\<close>

definition ReverseGeocodeHandler ::
  "(string \<Rightarrow> float64 option)
     \<Rightarrow> ('s \<Rightarrow> float64 \<Rightarrow> float64 \<Rightarrow> ('e + Location option) \<times> 's) \<Rightarrow> 's
     \<Rightarrow> (string \<rightharpoonup> string) \<Rightarrow> (nat \<times> body) \<times> 's" where
  "ReverseGeocodeHandler pf service s c =
     (let latStr = Query c ''lat''; lonStr = Query c ''lon''
      in if latStr = '''' \<or> lonStr = ''''
         then ((StatusBadRequest, ErrorBody MissingParametersLatLon), s)
         else (case pf latStr of
                 None \<Rightarrow> ((StatusBadRequest, ErrorBody InvalidLatitudeFormat), s)
               | Some lat \<Rightarrow>
                   (case pf lonStr of
                      None \<Rightarrow> ((StatusBadRequest, ErrorBody InvalidLongitudeFormat), s)
                    | Some lon \<Rightarrow>
                        (case service s lat lon of
                           (Inl err, s') \<Rightarrow>
                             ((StatusInternalServerError, ErrorBody InternalServerError), s')
                         | (Inr None, s') \<Rightarrow> ((StatusNotFound, ErrorBody NoAddressFound), s')
                         | (Inr (Some location), s') \<Rightarrow>
                             ((StatusOK, LocationBody location), s')))))"

subsection \<open>The endpoints as \<open>main\<close> of the API wires them\<close>

text \<open>\<open>repository.NewRepository\<close>, \<open>service.NewGeoCodeService\<close>,
  \<open>service.NewReverseGeoCodeService\<close> and the two handlers, on the routes \<open>/geocode\<close>
  and \<open>/reverse-geocode\<close>. The repository keeps no state of its own.\<close>

definition geocode_endpoint :: "engine \<Rightarrow> (string \<rightharpoonup> string) \<Rightarrow> nat \<times> body" where
  "geocode_endpoint e c =
     fst (GeoCode (Geocode (\<lambda>s query. (SearchLocationsByText e query, s))) () c)"

definition reverse_geocode_endpoint ::
  "(string \<Rightarrow> float64 option) \<Rightarrow> engine \<Rightarrow> (string \<rightharpoonup> string) \<Rightarrow> nat \<times> body" where
  "reverse_geocode_endpoint pf e c =
     fst (ReverseGeocodeHandler pf
            (ReverseGeocode (\<lambda>s lat lon. (FindNearestLocation e lat lon, s))) () c)"

section \<open>Notions the properties are stated with\<close>

text \<open>Membership in a closed interval and its complement for \<open>float64\<close>, with the
  comparisons of the machine. NaN compares false with every bound, so it is neither
  inside nor outside an interval.\<close>

definition inside :: "rat \<Rightarrow> rat \<Rightarrow> float64 \<Rightarrow> bool" where
  "inside lo hi x = (\<not> f64_less x (Fin lo) \<and> \<not> f64_less (Fin hi) x \<and> x \<noteq> NaN)"

definition outside :: "rat \<Rightarrow> rat \<Rightarrow> float64 \<Rightarrow> bool" where
  "outside lo hi x = (f64_less x (Fin lo) \<or> f64_less (Fin hi) x)"

text \<open>The parser contract in the words of the specification: a data row is acceptable
  when it has at least 11 columns and its columns 9 and 10 parse; an acceptable row
  becomes the record of its columns 0 to 4, 9 and 10; the first row that is not
  acceptable decides the error, and then there are no records.\<close>

definition row_ok :: "(string \<Rightarrow> float64 option) \<Rightarrow> string list \<Rightarrow> bool" where
  "row_ok pf row = (11 \<le> length row \<and> pf (row ! 9) \<noteq> None \<and> pf (row ! 10) \<noteq> None)"

definition row_record :: "(string \<Rightarrow> float64 option) \<Rightarrow> string list \<Rightarrow> LocationRecord" where
  "row_record pf row =
     \<lparr>Prefecture = row ! 0, Municipality = row ! 1, Address1 = row ! 2, Address2 = row ! 3,
      BlockLot = row ! 4, Lat = the (pf (row ! 9)), Lon = the (pf (row ! 10))\<rparr>"

definition row_error :: "(string \<Rightarrow> float64 option) \<Rightarrow> string list \<Rightarrow> parse_error" where
  "row_error pf row =
     (if length row < 11 then InvalidRecordLength (length row)
      else if pf (row ! 9) = None then InvalidLatitude (row ! 9)
      else InvalidLongitude (row ! 10))"

definition parse_contract ::
  "(string \<Rightarrow> float64 option) \<Rightarrow> string list list \<Rightarrow> parse_error + LocationRecord list" where
  "parse_contract pf data_rows =
     (case find (\<lambda>row. \<not> row_ok pf row) data_rows of
        None \<Rightarrow> Inr (map (row_record pf) data_rows)
      | Some bad \<Rightarrow> Inl (row_error pf bad))"

text \<open>The ledger as a set of file identifiers, whether a file parses in a world and
  the records it then yields, and a start-up without fatal failure.\<close>

definition ledger :: "database \<Rightarrow> string set" where
  "ledger db = set (map fst (processed_files db))"

definition parses :: "world \<Rightarrow> string \<Rightarrow> bool" where
  "parses w p =
     (case parseCSV (files w) (parse_float w) p of Inl e \<Rightarrow> False | Inr records \<Rightarrow> True)"

definition records_of :: "world \<Rightarrow> string \<Rightarrow> LocationRecord list" where
  "records_of w p =
     (case parseCSV (files w) (parse_float w) p of Inl e \<Rightarrow> [] | Inr records \<Rightarrow> records)"

definition setup_ok :: "world \<Rightarrow> bool" where
  "setup_ok w = (\<not> load_config_fails w \<and> \<not> connect_fails w \<and> \<not> create_tables_fails w)"

section \<open>Concrete inputs for the scenarios\<close>

text \<open>The row of the specification's scenario: Tokyo-to, Chiyoda-ku, Marunouchi in
  UTF-8, two empty address fields, four columns that are ignored, and the
  coordinates.\<close>

definition scenario_row :: "string \<Rightarrow> string \<Rightarrow> string \<Rightarrow> string \<Rightarrow> string list" where
  "scenario_row c5 c6 c7 c8 =
     [[CHR 0xE6, CHR 0x9D, CHR 0xB1, CHR 0xE4, CHR 0xBA, CHR 0xAC, CHR 0xE9, CHR 0x83, CHR 0xBD],
      [CHR 0xE5, CHR 0x8D, CHR 0x83, CHR 0xE4, CHR 0xBB, CHR 0xA3, CHR 0xE7, CHR 0x94, CHR 0xB0,
       CHR 0xE5, CHR 0x8C, CHR 0xBA],
      [CHR 0xE4, CHR 0xB8, CHR 0xB8, CHR 0xE3, CHR 0x81, CHR 0xAE, CHR 0xE5, CHR 0x86, CHR 0x85],
      '''', '''', c5, c6, c7, c8, ''35.681236'', ''139.767125'']"

definition scenario_record :: LocationRecord where
  "scenario_record =
     \<lparr>Prefecture =
        [CHR 0xE6, CHR 0x9D, CHR 0xB1, CHR 0xE4, CHR 0xBA, CHR 0xAC, CHR 0xE9, CHR 0x83, CHR 0xBD],
      Municipality =
        [CHR 0xE5, CHR 0x8D, CHR 0x83, CHR 0xE4, CHR 0xBB, CHR 0xA3, CHR 0xE7, CHR 0x94, CHR 0xB0,
         CHR 0xE5, CHR 0x8C, CHR 0xBA],
      Address1 =
        [CHR 0xE4, CHR 0xB8, CHR 0xB8, CHR 0xE3, CHR 0x81, CHR 0xAE, CHR 0xE5, CHR 0x86, CHR 0x85],
      Address2 = '''', BlockLot = '''',
      Lat = Fin (35681236 / 1000000), Lon = Fin (139767125 / 1000000)\<rparr>"

definition header_row :: "string list" where
  "header_row =
     [''prefecture'', ''municipality'', ''address_1'', ''address_2'', ''block_lot'',
      ''c5'', ''c6'', ''c7'', ''c8'', ''lat'', ''lon'']"

definition akasaka_row :: "string list" where
  "akasaka_row =
     [''Tokyo'', ''Minato'', ''Akasaka'', ''1'', '''', '''', '''', '''', '''', ''35.675'', ''139.732'']"

definition akasaka_record :: LocationRecord where
  "akasaka_record =
     \<lparr>Prefecture = ''Tokyo'', Municipality = ''Minato'', Address1 = ''Akasaka'',
      Address2 = ''1'', BlockLot = '''', Lat = Fin (35675 / 1000), Lon = Fin (139732 / 1000)\<rparr>"

definition polar_row :: "string list" where
  "polar_row =
     [''Nowhere'', ''None'', ''Off the map'', '''', '''', '''', '''', '''', '''', ''95'', ''200'']"

definition polar_record :: LocationRecord where
  "polar_record =
     \<lparr>Prefecture = ''Nowhere'', Municipality = ''None'', Address1 = ''Off the map'',
      Address2 = '''', BlockLot = '''', Lat = Fin 95, Lon = Fin 200\<rparr>"

text \<open>A file system with a directory \<open>data\<close> of two well-formed files and a malformed
  one (its data row has three columns), a file with a row beyond the poles and a file
  that holds a header only.\<close>

definition demo_files :: "string \<Rightarrow> csv_stream option" where
  "demo_files p =
     (if p = ''data/a.csv'' then Some [Record header_row, Record (scenario_row ''w'' ''x'' ''y'' ''z'')]
      else if p = ''data/b.csv'' then Some [Record header_row, Record [''Tokyo'', ''Minato'', ''Akasaka'']]
      else if p = ''data/c.csv'' then Some [Record header_row, Record akasaka_row, Record akasaka_row]
      else if p = ''polar.csv'' then Some [Record header_row, Record polar_row]
      else if p = ''header.csv'' then Some [Record header_row]
      else None)"

definition demo_walk :: "string \<Rightarrow> walk_entry list" where
  "demo_walk d =
     (if d = ''data''
      then [Entry ''data'' True, Entry ''data/a.csv'' False, Entry ''data/b.csv'' False,
            Entry ''data/c.csv'' False, Entry ''data/notes.txt'' False]
      else if d = ''polar'' then [Entry ''polar'' True, Entry ''polar.csv'' False]
      else [WalkError])"

text \<open>A world in which the store never fails, one in which only the ledger write
  fails, and one in which only the bulk insert fails.\<close>

definition demo_world :: world where
  "demo_world =
     \<lparr>files = demo_files, parse_float = ParseFloat, walk = demo_walk,
      load_config_fails = False, connect_fails = False, create_tables_fails = False,
      query_fails = (\<lambda>p. False), copy_fails = (\<lambda>p. False), exec_fails = (\<lambda>p. False),
      count_fails = False, sample_fails = False\<rparr>"

definition ledger_down_world :: world where
  "ledger_down_world = demo_world\<lparr>exec_fails := (\<lambda>p. True)\<rparr>"

definition insert_down_world :: world where
  "insert_down_world = demo_world\<lparr>copy_fails := (\<lambda>p. True)\<rparr>"

definition empty_db :: database where
  "empty_db = \<lparr>locations = [], processed_files = []\<rparr>"

definition new_run :: "database \<Rightarrow> import_run" where
  "new_run db = \<lparr>conn = db, totalRecords = 0, processedFiles = 0, failedFiles = 0, stdout = []\<rparr>"

text \<open>An engine with one stored location that matches every query and lies within
  reach of every point, and an engine without rows.\<close>

definition marunouchi :: Location where
  "marunouchi =
     \<lparr>ID = 1, loc_Prefecture = ''Tokyo'', loc_Municipality = ''Chiyoda'',
      loc_Address1 = ''Marunouchi'', loc_Address2 = '''', loc_BlockLot = '''',
      Latitude = Fin (35681236 / 1000000), Longitude = Fin (139767125 / 1000000)\<rparr>"

definition demo_engine :: engine where
  "demo_engine =
     \<lparr>rows = [marunouchi], ts_match = (\<lambda>q l. True), ts_rank = (\<lambda>q l. 1),
      dwithin = (\<lambda>lat lon l. True), knn_distance = (\<lambda>lat lon l. 0),
      search_fault = (\<lambda>q. None), nearest_fails = (\<lambda>lat lon. False)\<rparr>"

definition empty_engine :: engine where
  "empty_engine = demo_engine\<lparr>rows := []\<rparr>"

definition crowded_engine :: engine where
  "crowded_engine = demo_engine\<lparr>rows := replicate 12 marunouchi\<rparr>"

text \<open>Mock repositories in the manner of the tests: the state is the number of calls
  received so far.\<close>

definition counting_search :: "nat \<Rightarrow> string \<Rightarrow> (repo_error + Location list) \<times> nat" where
  "counting_search calls query = (Inr [marunouchi], Suc calls)"

definition counting_nearest ::
  "nat \<Rightarrow> float64 \<Rightarrow> float64 \<Rightarrow> (repo_error + Location option) \<times> nat" where
  "counting_nearest calls lat lon = (Inr (Some marunouchi), Suc calls)"

section \<open>Evaluation of the concrete inputs and lemmas on the per-file step\<close>

lemmas ParseFloat_eval =
  ParseFloat_def parse_mantissa_def is_digit_def digits_val_def digit_val_def

lemma ParseFloat_scenario:
  "ParseFloat ''35.681236'' = Some (Fin (35681236 / 1000000))"
  "ParseFloat ''139.767125'' = Some (Fin (139767125 / 1000000))"
  "ParseFloat ''35.675'' = Some (Fin (35675 / 1000))"
  "ParseFloat ''139.732'' = Some (Fin (139732 / 1000))"
  "ParseFloat ''95'' = Some (Fin 95)"
  "ParseFloat ''200'' = Some (Fin 200)"
  "ParseFloat ''0'' = Some (Fin 0)"
  "ParseFloat ''north'' = None"
  by (simp_all add: ParseFloat_eval)

lemma parse_rows_contract:
  "parse_rows pf (map Record data_rows) acc =
     (case find (\<lambda>row. \<not> row_ok pf row) data_rows of
        None \<Rightarrow> Inr (acc @ map (row_record pf) data_rows)
      | Some bad \<Rightarrow> Inl (row_error pf bad))"
  by (induction data_rows arbitrary: acc)
     (auto simp: row_ok_def row_record_def row_error_def split: option.splits)

lemma parseCSV_demo:
  "parseCSV demo_files ParseFloat ''data/a.csv'' = Inr [scenario_record]"
  "parseCSV demo_files ParseFloat ''data/b.csv'' = Inl (InvalidRecordLength 3)"
  "parseCSV demo_files ParseFloat ''data/c.csv'' = Inr [akasaka_record, akasaka_record]"
  "parseCSV demo_files ParseFloat ''polar.csv'' = Inr [polar_record]"
  "parseCSV demo_files ParseFloat ''header.csv'' = Inr []"
  by (simp_all add: parseCSV_def demo_files_def header_row_def scenario_row_def
      scenario_record_def akasaka_row_def akasaka_record_def polar_row_def polar_record_def
      ParseFloat_scenario)

lemma process_file_check_error:
  "query_fails w p \<Longrightarrow>
   process_file w r p =
     r\<lparr>failedFiles := failedFiles r + 1,
       stdout := stdout r @ [ProcessingFile p, ErrCheckingProcessed]\<rparr>"
  by (simp add: process_file_def isFileProcessed_def print_def)

lemma process_file_skip:
  "\<not> query_fails w p \<Longrightarrow> p \<in> ledger (conn r) \<Longrightarrow>
   process_file w r p = r\<lparr>stdout := stdout r @ [ProcessingFile p, SkippingProcessed p]\<rparr>"
  by (simp add: process_file_def isFileProcessed_def print_def ledger_def)

lemma process_file_parse_error:
  "\<not> query_fails w p \<Longrightarrow> p \<notin> ledger (conn r) \<Longrightarrow>
   parseCSV (files w) (parse_float w) p = Inl e \<Longrightarrow>
   process_file w r p =
     r\<lparr>failedFiles := failedFiles r + 1,
       stdout := stdout r @ [ProcessingFile p, ErrParsingFile p e]\<rparr>"
  by (simp add: process_file_def isFileProcessed_def print_def ledger_def)

lemma process_file_insert_error:
  "\<not> query_fails w p \<Longrightarrow> p \<notin> ledger (conn r) \<Longrightarrow>
   parseCSV (files w) (parse_float w) p = Inr records \<Longrightarrow> copy_fails w p \<Longrightarrow>
   process_file w r p =
     r\<lparr>failedFiles := failedFiles r + 1,
       stdout := stdout r @
         [ProcessingFile p, ParsedFrom (length records) p, ErrInsertingFrom p]\<rparr>"
  by (simp add: process_file_def isFileProcessed_def insertRecords_def print_def ledger_def)

lemma process_file_mark_error:
  "\<not> query_fails w p \<Longrightarrow> p \<notin> ledger (conn r) \<Longrightarrow>
   parseCSV (files w) (parse_float w) p = Inr records \<Longrightarrow> \<not> copy_fails w p \<Longrightarrow>
   exec_fails w p \<Longrightarrow>
   process_file w r p =
     r\<lparr>conn := (conn r)\<lparr>locations := locations (conn r) @ records\<rparr>,
       totalRecords := totalRecords r + length records,
       processedFiles := processedFiles r + 1,
       stdout := stdout r @
         [ProcessingFile p, ParsedFrom (length records) p, ErrMarking,
          SuccessProcessed p (length records)]\<rparr>"
  by (simp add: process_file_def isFileProcessed_def insertRecords_def markFileProcessed_def
      print_def ledger_def)

lemma process_file_ledgered:
  "\<not> query_fails w p \<Longrightarrow> p \<notin> ledger (conn r) \<Longrightarrow>
   parseCSV (files w) (parse_float w) p = Inr records \<Longrightarrow> \<not> copy_fails w p \<Longrightarrow>
   \<not> exec_fails w p \<Longrightarrow>
   process_file w r p =
     r\<lparr>conn := \<lparr>locations = locations (conn r) @ records,
                 processed_files = processed_files (conn r) @ [(p, length records)]\<rparr>,
       totalRecords := totalRecords r + length records,
       processedFiles := processedFiles r + 1,
       stdout := stdout r @
         [ProcessingFile p, ParsedFrom (length records) p,
          SuccessProcessed p (length records)]\<rparr>"
  by (simp add: process_file_def isFileProcessed_def insertRecords_def markFileProcessed_def
      print_def ledger_def)

lemma process_file_cases:
  obtains (check) "query_fails w p"
  | (skip) "\<not> query_fails w p" "p \<in> ledger (conn (r::import_run))"
  | (parse) e where "\<not> query_fails w p" "p \<notin> ledger (conn r)" 
       "parseCSV (files w) (parse_float w) p = Inl e"
  | (insert) records where "\<not> query_fails w p" "p \<notin> ledger (conn r)" 
       "parseCSV (files w) (parse_float w) p = Inr records" "copy_fails w p"
  | (mark) records where "\<not> query_fails w p" "p \<notin> ledger (conn r)" 
       "parseCSV (files w) (parse_float w) p = Inr records" "\<not> copy_fails w p" "exec_fails w p"
  | (ok) records where "\<not> query_fails w p" "p \<notin> ledger (conn r)" 
       "parseCSV (files w) (parse_float w) p = Inr records" "\<not> copy_fails w p" "\<not> exec_fails w p"
  by (cases "parseCSV (files w) (parse_float w) p") blast+

lemma process_file_locations:
  "\<exists>added. locations (conn (process_file w r p)) = locations (conn r) @ added \<and>
     (added = [] \<or> parseCSV (files w) (parse_float w) p = Inr added)"
  by (rule process_file_cases[where w=w and p=p and r=r])
     (simp_all add: process_file_check_error process_file_skip process_file_parse_error
       process_file_insert_error process_file_mark_error process_file_ledgered)

lemma process_file_ledger_mono: "ledger (conn r) \<subseteq> ledger (conn (process_file w r p))"
  by (rule process_file_cases[where w=w and p=p and r=r])
     (auto simp add: process_file_check_error process_file_skip process_file_parse_error
       process_file_insert_error process_file_mark_error process_file_ledgered ledger_def)

lemma process_file_ledger_bound:
  "ledger (conn (process_file w r p)) \<subseteq> insert p (ledger (conn r))"
  by (rule process_file_cases[where w=w and p=p and r=r])
     (auto simp add: process_file_check_error process_file_skip process_file_parse_error
       process_file_insert_error process_file_mark_error process_file_ledgered ledger_def)


lemma process_files_append:
  "process_files w r (xs @ ys) = process_files w (process_files w r xs) ys"
  by (induction xs arbitrary: r) simp_all

lemma process_files_ledger_mono: "ledger (conn r) \<subseteq> ledger (conn (process_files w r fs))"
proof (induction fs arbitrary: r)
  case Nil
  then show ?case by simp
next
  case (Cons p fs)
  have "ledger (conn r) \<subseteq> ledger (conn (process_file w r p))"
    by (rule process_file_ledger_mono)
  also have "\<dots> \<subseteq> ledger (conn (process_files w (process_file w r p) fs))"
    by (rule Cons.IH)
  finally show ?case by simp
qed

lemma process_files_ledger_bound:
  "ledger (conn (process_files w r fs)) \<subseteq> ledger (conn r) \<union> set fs"
proof (induction fs arbitrary: r)
  case Nil
  then show ?case by simp
next
  case (Cons p fs)
  have "ledger (conn (process_files w (process_file w r p) fs))
          \<subseteq> ledger (conn (process_file w r p)) \<union> set fs"
    by (rule Cons.IH)
  also have "\<dots> \<subseteq> insert p (ledger (conn r)) \<union> set fs"
    using process_file_ledger_bound[of w r p] by blast
  finally show ?case by auto
qed

lemma process_files_locations:
  "\<exists>added. locations (conn (process_files w r fs)) = locations (conn r) @ added"
proof (induction fs arbitrary: r)
  case Nil
  then show ?case by simp
next
  case (Cons p fs)
  obtain a where a: "locations (conn (process_file w r p)) = locations (conn r) @ a"
    using process_file_locations[of w r p] by blast
  obtain b where "locations (conn (process_files w (process_file w r p) fs))
                    = locations (conn (process_file w r p)) @ b"
    using Cons.IH by blast
  with a show ?case by simp
qed

lemma process_file_settled:
  assumes "p \<in> ledger (conn r) \<or> \<not> parses w p"
  shows "conn (process_file w r p) = conn r \<and>
         processedFiles (process_file w r p) = processedFiles r \<and>
         totalRecords (process_file w r p) = totalRecords r"
  using assms
  by (rule_tac process_file_cases[where w=w and p=p and r=r])
     (auto simp add: process_file_check_error process_file_skip process_file_parse_error
       process_file_insert_error process_file_mark_error process_file_ledgered parses_def)

lemma process_files_settled:
  assumes "\<forall>p\<in>set fs. p \<in> ledger (conn r) \<or> \<not> parses w p"
  shows "conn (process_files w r fs) = conn r \<and>
         processedFiles (process_files w r fs) = processedFiles r \<and>
         totalRecords (process_files w r fs) = totalRecords r"
  using assms
proof (induction fs arbitrary: r)
  case Nil
  then show ?case by simp
next
  case (Cons p fs)
  have step: "conn (process_file w r p) = conn r \<and>
         processedFiles (process_file w r p) = processedFiles r \<and>
         totalRecords (process_file w r p) = totalRecords r"
    using Cons.prems by (intro process_file_settled) simp
  then have "\<forall>q\<in>set fs. q \<in> ledger (conn (process_file w r p)) \<or> \<not> parses w q"
    using Cons.prems by simp
  from Cons.IH[OF this] step show ?case by simp
qed

lemma process_file_ledgers:
  assumes "\<not> query_fails w p" "\<not> copy_fails w p" "\<not> exec_fails w p"
  shows "p \<in> ledger (conn (process_file w r p)) \<or> \<not> parses w p"
  using assms
  by (rule_tac process_file_cases[where w=w and p=p and r=r])
     (auto simp add: process_file_skip process_file_parse_error
       process_file_ledgered parses_def ledger_def)

lemma process_files_ledgers:
  assumes "\<forall>p\<in>set fs. \<not> query_fails w p \<and> \<not> copy_fails w p \<and> \<not> exec_fails w p"
  shows "\<forall>p\<in>set fs. p \<in> ledger (conn (process_files w r fs)) \<or> \<not> parses w p"
  using assms
proof (induction fs arbitrary: r)
  case Nil
  then show ?case by simp
next
  case (Cons p fs)
  have "p \<in> ledger (conn (process_file w r p)) \<or> \<not> parses w p"
    using Cons.prems by (intro process_file_ledgers) simp_all
  then have "p \<in> ledger (conn (process_files w (process_file w r p) fs)) \<or> \<not> parses w p"
    using process_files_ledger_mono[of "process_file w r p" w fs] by blast
  moreover have "\<forall>q\<in>set fs. q \<in> ledger (conn (process_files w (process_file w r p) fs))
                   \<or> \<not> parses w q"
    using Cons.prems by (intro Cons.IH) simp
  ultimately show ?case by simp
qed

lemma process_file_fresh:
  assumes "\<not> query_fails w p" "\<not> copy_fails w p" "p \<notin> ledger (conn r)"
  shows "locations (conn (process_file w r p)) = locations (conn r) @ records_of w p \<and>
         processedFiles (process_file w r p) = processedFiles r + (if parses w p then 1 else 0) \<and>
         failedFiles (process_file w r p) = failedFiles r + (if parses w p then 0 else 1) \<and>
         totalRecords (process_file w r p) = totalRecords r + length (records_of w p)"
  using assms
  by (rule_tac process_file_cases[where w=w and p=p and r=r])
     (auto simp add: process_file_parse_error process_file_mark_error
       process_file_ledgered parses_def records_of_def)

lemma process_files_fresh:
  assumes "distinct fs" "\<forall>p\<in>set fs. p \<notin> ledger (conn r)"
    "\<forall>p\<in>set fs. \<not> query_fails w p \<and> \<not> copy_fails w p"
  shows "locations (conn (process_files w r fs))
           = locations (conn r) @ concat (map (records_of w) fs) \<and>
         processedFiles (process_files w r fs)
           = processedFiles r + length (filter (parses w) fs) \<and>
         failedFiles (process_files w r fs)
           = failedFiles r + length (filter (\<lambda>p. \<not> parses w p) fs) \<and>
         totalRecords (process_files w r fs)
           = totalRecords r + length (concat (map (records_of w) fs))"
  using assms
proof (induction fs arbitrary: r)
  case Nil
  then show ?case by simp
next
  case (Cons p fs)
  let ?r = "process_file w r p"
  have step: "locations (conn ?r) = locations (conn r) @ records_of w p \<and>
         processedFiles ?r = processedFiles r + (if parses w p then 1 else 0) \<and>
         failedFiles ?r = failedFiles r + (if parses w p then 0 else 1) \<and>
         totalRecords ?r = totalRecords r + length (records_of w p)"
    using Cons.prems by (intro process_file_fresh) simp_all
  have "\<forall>q\<in>set fs. q \<notin> ledger (conn ?r)"
    using Cons.prems process_file_ledger_bound[of w r p] by auto
  moreover have "distinct fs" "\<forall>q\<in>set fs. \<not> query_fails w q \<and> \<not> copy_fails w q"
    using Cons.prems by simp_all
  ultimately have "locations (conn (process_files w ?r fs))
           = locations (conn ?r) @ concat (map (records_of w) fs) \<and>
         processedFiles (process_files w ?r fs)
           = processedFiles ?r + length (filter (parses w) fs) \<and>
         failedFiles (process_files w ?r fs)
           = failedFiles ?r + length (filter (\<lambda>p. \<not> parses w p) fs) \<and>
         totalRecords (process_files w ?r fs)
           = totalRecords ?r + length (concat (map (records_of w) fs))"
    by (intro Cons.IH)
  with step show ?case by simp
qed


lemma main_directory:
  assumes "setup_ok w" "directory \<noteq> ''''" "findCSVFiles (walk w) directory = (found, False)"
  shows "main w '''' directory db =
           (let r2 = process_files w
                       ((new_run db)\<lparr>stdout := [StartingDirectory directory, Found (length found)]\<rparr>)
                       found
            in (0, print r2
                     (DirectoryCompleted (processedFiles r2) (failedFiles r2) (totalRecords r2))))"
  using assms by (simp add: main_def import_directory_def setup_ok_def new_run_def print_def)

section \<open>The parser contract and the ledger policy\<close>

lemma findCSVFiles_demo:
  "findCSVFiles demo_walk ''data'' = ([''data/a.csv'', ''data/b.csv'', ''data/c.csv''], False)"
  "findCSVFiles demo_walk ''polar'' = ([''polar.csv''], False)"
  by (simp_all add: findCSVFiles_def demo_walk_def Ext_def)

lemma demo_world_simps:
  "files demo_world = demo_files" "parse_float demo_world = ParseFloat"
  "walk demo_world = demo_walk" "setup_ok demo_world"
  "query_fails demo_world p = False" "copy_fails demo_world p = False"
  "exec_fails demo_world p = False" "count_fails demo_world = False"
  "sample_fails demo_world = False"
  by (simp_all add: demo_world_def setup_ok_def)

lemma demo_parses:
  "parses demo_world ''data/a.csv''" "\<not> parses demo_world ''data/b.csv''"
  "parses demo_world ''data/c.csv''" "parses demo_world ''polar.csv''"
  "parses demo_world ''header.csv''"
  "records_of demo_world ''data/a.csv'' = [scenario_record]"
  "records_of demo_world ''data/b.csv'' = []"
  "records_of demo_world ''data/c.csv'' = [akasaka_record, akasaka_record]"
  "records_of demo_world ''polar.csv'' = [polar_record]"
  "records_of demo_world ''header.csv'' = []"
  by (simp_all add: parses_def records_of_def demo_world_simps parseCSV_demo)

text \<open>
  C5. For every file whose reads are a header followed by data rows, whatever the
  header is: \<open>parseCSV\<close> returns what the parser contract says. When every data row has
  at least 11 columns and parseable columns 9 and 10, these are the records of the
  rows, in order, made from columns 0 to 4, 9 and 10; otherwise the first offending
  row decides the error (for a short row the error carries its length) and no record
  is returned. The scenario row parses to latitude 35.681236 and longitude 139.767125,
  whatever its columns 5 to 8 hold.
\<close>

theorem parseCSV_contract:
  "parseCSV (fs(filePath \<mapsto> Record header # map Record data_rows)) pf filePath
     = parse_contract pf data_rows \<and>
   ((\<forall>row\<in>set data_rows. row_ok pf row) \<longrightarrow>
      parse_contract pf data_rows = Inr (map (row_record pf) data_rows)) \<and>
   (\<forall>good bad rest. data_rows = good @ bad # rest \<and> (\<forall>row\<in>set good. row_ok pf row) \<and>
      \<not> row_ok pf bad \<longrightarrow>
      parse_contract pf data_rows = Inl (row_error pf bad) \<and>
      (length bad < 11 \<longrightarrow> row_error pf bad = InvalidRecordLength (length bad))) \<and>
   parseCSV (fs(filePath \<mapsto> [Record header, Record (scenario_row c5 c6 c7 c8)]))
       ParseFloat filePath = Inr [scenario_record] \<and>
   Lat scenario_record = Fin (35681236 / 1000000) \<and>
   Lon scenario_record = Fin (139767125 / 1000000)"
proof -
  have eq: "parseCSV (fs(filePath \<mapsto> Record header # map Record data_rows)) pf filePath
              = parse_contract pf data_rows"
    by (simp add: parseCSV_def parse_contract_def parse_rows_contract split: option.splits)
  have all_ok: "parse_contract pf data_rows = Inr (map (row_record pf) data_rows)"
    if "\<forall>row\<in>set data_rows. row_ok pf row"
  proof -
    from that have "find (\<lambda>row. \<not> row_ok pf row) data_rows = None"
      by (simp add: find_None_iff)
    then show ?thesis by (simp add: parse_contract_def)
  qed
  have first_bad: "parse_contract pf data_rows = Inl (row_error pf bad)"
    if "data_rows = good @ bad # rest" "\<forall>row\<in>set good. row_ok pf row" "\<not> row_ok pf bad"
    for good bad rest
  proof -
    from that have "find (\<lambda>row. \<not> row_ok pf row) data_rows = Some bad"
      by (induction good arbitrary: data_rows) simp_all
    then show ?thesis by (simp add: parse_contract_def)
  qed
  have short: "row_error pf bad = InvalidRecordLength (length bad)" if "length bad < 11" for bad
    using that by (simp add: row_error_def)
  have scen: "parseCSV (fs(filePath \<mapsto> [Record header, Record (scenario_row c5 c6 c7 c8)]))
       ParseFloat filePath = Inr [scenario_record]"
    by (simp add: parseCSV_def scenario_row_def scenario_record_def ParseFloat_scenario)
  have coords: "Lat scenario_record = Fin (35681236 / 1000000)"
    "Lon scenario_record = Fin (139767125 / 1000000)"
    by (simp_all add: scenario_record_def)
  from eq all_ok first_bad short scen coords show ?thesis by blast
qed

theorem parseCSV_contract_witness:
  "parseCSV (demo_files(''in.csv'' \<mapsto> Record header_row # map Record [akasaka_row, [''Tokyo'']]))
       ParseFloat ''in.csv'' = Inl (InvalidRecordLength 1) \<and>
   parseCSV (demo_files(''in.csv'' \<mapsto> Record header_row # map Record [akasaka_row]))
       ParseFloat ''in.csv'' = Inr [akasaka_record]"
proof -
  have ok: "row_ok ParseFloat akasaka_row"
    by (simp add: row_ok_def akasaka_row_def ParseFloat_scenario)
  have bad: "\<not> row_ok ParseFloat [''Tokyo'']"
    by (simp add: row_ok_def)
  have rec: "row_record ParseFloat akasaka_row = akasaka_record"
    by (simp add: row_record_def akasaka_row_def akasaka_record_def ParseFloat_scenario)
  note bad_file = parseCSV_contract[of demo_files "''in.csv''" header_row
      "[akasaka_row, [''Tokyo'']]" ParseFloat]
  note good_file = parseCSV_contract[of demo_files "''in.csv''" header_row
      "[akasaka_row]" ParseFloat]
  have "parse_contract ParseFloat [akasaka_row, [''Tokyo'']]
          = Inl (row_error ParseFloat [''Tokyo''])"
    using bad_file[THEN conjunct2, THEN conjunct2, THEN conjunct1, rule_format,
        of "[akasaka_row]" "[''Tokyo'']" "[]"] ok bad
    by simp
  moreover have "parse_contract ParseFloat [akasaka_row] = Inr [akasaka_record]"
    using good_file[THEN conjunct2, THEN conjunct1] ok rec by simp
  ultimately show ?thesis
    using bad_file[THEN conjunct1] good_file[THEN conjunct1]
    by (simp add: row_error_def)
qed

text \<open>
  C6. In directory mode, for a file that is not in the ledger, parses, and whose bulk
  insert succeeds while the ledger write that follows fails: the failed-file counter
  keeps its value, the warning is printed, the processed-file counter grows by one and
  the running total by the number of records of the file; the rows are in the store.
\<close>

theorem ledger_failure_is_only_a_warning:
  assumes "isFileProcessed (query_fails w p) (conn r) p = Some False"
    and "parseCSV (files w) (parse_float w) p = Inr records"
    and "insertRecords (copy_fails w p) (conn r) records = Some c"
    and "markFileProcessed (exec_fails w p) c p (length records) = None"
  shows "process_file w r p =
           r\<lparr>conn := c,
             totalRecords := totalRecords r + length records,
             processedFiles := processedFiles r + 1,
             stdout := stdout r @
               [ProcessingFile p, ParsedFrom (length records) p, ErrMarking,
                SuccessProcessed p (length records)]\<rparr> \<and>
         failedFiles (process_file w r p) = failedFiles r \<and>
         locations c = locations (conn r) @ records"
proof -
  have eq: "process_file w r p =
           r\<lparr>conn := c,
             totalRecords := totalRecords r + length records,
             processedFiles := processedFiles r + 1,
             stdout := stdout r @
               [ProcessingFile p, ParsedFrom (length records) p, ErrMarking,
                SuccessProcessed p (length records)]\<rparr>"
    using assms by (simp add: process_file_def print_def)
  have "locations c = locations (conn r) @ records"
    using assms(3) by (auto simp add: insertRecords_def split: if_splits)
  with eq show ?thesis by simp
qed

theorem ledger_failure_is_only_a_warning_witness:
  "process_file ledger_down_world (new_run empty_db) ''data/a.csv'' =
     \<lparr>conn = \<lparr>locations = [scenario_record], processed_files = []\<rparr>,
      totalRecords = 1, processedFiles = 1, failedFiles = 0,
      stdout = [ProcessingFile ''data/a.csv'', ParsedFrom 1 ''data/a.csv'', ErrMarking,
                SuccessProcessed ''data/a.csv'' 1]\<rparr>"
proof -
  have w: "files ledger_down_world = demo_files" "parse_float ledger_down_world = ParseFloat"
    "query_fails ledger_down_world ''data/a.csv'' = False"
    "copy_fails ledger_down_world ''data/a.csv'' = False"
    "exec_fails ledger_down_world ''data/a.csv'' = True"
    by (simp_all add: ledger_down_world_def demo_world_def)
  have 1: "isFileProcessed (query_fails ledger_down_world ''data/a.csv'')
             (conn (new_run empty_db)) ''data/a.csv'' = Some False"
    by (simp add: w isFileProcessed_def new_run_def empty_db_def)
  have 2: "parseCSV (files ledger_down_world) (parse_float ledger_down_world) ''data/a.csv''
             = Inr [scenario_record]"
    by (simp add: w parseCSV_demo)
  have 3: "insertRecords (copy_fails ledger_down_world ''data/a.csv'') (conn (new_run empty_db))
             [scenario_record] = Some \<lparr>locations = [scenario_record], processed_files = []\<rparr>"
    by (simp add: w insertRecords_def new_run_def empty_db_def)
  have 4: "markFileProcessed (exec_fails ledger_down_world ''data/a.csv'')
             \<lparr>locations = [scenario_record], processed_files = []\<rparr> ''data/a.csv''
             (length [scenario_record]) = None"
    by (simp add: w markFileProcessed_def)
  show ?thesis
    using ledger_failure_is_only_a_warning[OF 1 2 3 4] by (simp add: new_run_def)
qed

section \<open>Idempotence of the directory import\<close>

lemma isFileProcessed_iff:
  "isFileProcessed fails db p = Some True \<longleftrightarrow> \<not> fails \<and> p \<in> ledger db"
  "isFileProcessed fails db p = Some False \<longleftrightarrow> \<not> fails \<and> p \<notin> ledger db"
  by (auto simp add: isFileProcessed_def ledger_def)

lemma process_file_failed_entry:
  assumes "\<not> parses w p \<or> copy_fails w p"
  shows "ledger (conn (process_file w r p)) = ledger (conn r)"
  using assms
  by (rule_tac process_file_cases[where w=w and p=p and r=r])
     (auto simp add: process_file_check_error process_file_skip process_file_parse_error
       process_file_insert_error parses_def)

lemma process_files_failed_entry:
  assumes "\<not> parses w p \<or> copy_fails w p"
  shows "p \<in> ledger (conn (process_files w r fs)) \<longleftrightarrow> p \<in> ledger (conn r)"
proof (induction fs arbitrary: r)
  case Nil
  then show ?case by simp
next
  case (Cons q fs)
  have "p \<in> ledger (conn (process_file w r q)) \<longleftrightarrow> p \<in> ledger (conn r)"
  proof (cases "q = p")
    case True
    then show ?thesis using process_file_failed_entry[OF assms, of r] by simp
  next
    case False
    then show ?thesis
      using process_file_ledger_bound[of w r q] process_file_ledger_mono[of r w q] by blast
  qed
  with Cons.IH[of "process_file w r q"] show ?case by simp
qed

lemma snd_main_directory:
  fixes db :: database
  assumes "setup_ok w" "directory \<noteq> ''''" "findCSVFiles (walk w) directory = (found, False)"
  defines "r0 \<equiv> (new_run db)\<lparr>stdout := [StartingDirectory directory, Found (length found)]\<rparr>"
  shows "fst (main w '''' directory db) = 0"
    and "conn (snd (main w '''' directory db)) = conn (process_files w r0 found)"
    and "processedFiles (snd (main w '''' directory db)) = processedFiles (process_files w r0 found)"
    and "failedFiles (snd (main w '''' directory db)) = failedFiles (process_files w r0 found)"
    and "totalRecords (snd (main w '''' directory db)) = totalRecords (process_files w r0 found)"
    and "last (stdout (snd (main w '''' directory db))) =
           DirectoryCompleted (processedFiles (process_files w r0 found))
             (failedFiles (process_files w r0 found)) (totalRecords (process_files w r0 found))"
  using main_directory[OF assms(1-3), of db]
  by (simp_all add: Let_def print_def r0_def)

text \<open>
  C1. A file for which \<open>isFileProcessed\<close> returns true is skipped: whatever the file
  holds, the step only prints two lines; the store and the three counters keep their
  values. Hence, when a directory import whose store operations all succeed is
  followed by a second directory import over the same files (whatever the store does
  in the second one), the second run exits with code 0 and reports zero processed
  files and zero records, and leaves the store as the first run left it; when the
  discovered files were not in the ledger before, the store then holds the records of
  each of them once.
\<close>

theorem directory_import_idempotent:
  "(isFileProcessed (query_fails w p) (conn r) p = Some True \<longrightarrow>
      process_file (w\<lparr>files := any_files\<rparr>) r p =
        r\<lparr>stdout := stdout r @ [ProcessingFile p, SkippingProcessed p]\<rparr>) \<and>
   (setup_ok w1 \<and> setup_ok w2 \<and> directory \<noteq> '''' \<and>
    findCSVFiles (walk w1) directory = (found, False) \<and>
    findCSVFiles (walk w2) directory = (found, False) \<and>
    files w2 = files w1 \<and> parse_float w2 = parse_float w1 \<and>
    (\<forall>p\<in>set found. \<not> query_fails w1 p \<and> \<not> copy_fails w1 p \<and> \<not> exec_fails w1 p) \<longrightarrow>
      (let r1 = snd (main w1 '''' directory db);
           run2 = main w2 '''' directory (conn r1);
           r2 = snd run2
       in fst run2 = 0 \<and> processedFiles r2 = 0 \<and> totalRecords r2 = 0 \<and>
          last (stdout r2) = DirectoryCompleted 0 (failedFiles r2) 0 \<and>
          conn r2 = conn r1 \<and>
          (distinct found \<and> set found \<inter> ledger db = {} \<longrightarrow>
             locations (conn r2) = locations db @ concat (map (records_of w1) found))))"
proof (intro conjI impI)
  assume "isFileProcessed (query_fails w p) (conn r) p = Some True"
  then have "\<not> query_fails (w\<lparr>files := any_files\<rparr>) p" "p \<in> ledger (conn r)"
    by (simp_all add: isFileProcessed_iff)
  then show "process_file (w\<lparr>files := any_files\<rparr>) r p =
        r\<lparr>stdout := stdout r @ [ProcessingFile p, SkippingProcessed p]\<rparr>"
    by (rule process_file_skip)
next
  assume h: "setup_ok w1 \<and> setup_ok w2 \<and> directory \<noteq> '''' \<and>
    findCSVFiles (walk w1) directory = (found, False) \<and>
    findCSVFiles (walk w2) directory = (found, False) \<and>
    files w2 = files w1 \<and> parse_float w2 = parse_float w1 \<and>
    (\<forall>p\<in>set found. \<not> query_fails w1 p \<and> \<not> copy_fails w1 p \<and> \<not> exec_fails w1 p)"
  define s1 where
    "s1 = (new_run db)\<lparr>stdout := [StartingDirectory directory, Found (length found)]\<rparr>"
  define r1 where "r1 = snd (main w1 '''' directory db)"
  define s2 where
    "s2 = (new_run (conn r1))\<lparr>stdout := [StartingDirectory directory, Found (length found)]\<rparr>"
  define r2 where "r2 = snd (main w2 '''' directory (conn r1))"
  have "files w2 = files w1" "parse_float w2 = parse_float w1"
    using h by simp_all
  then have same: "parses w2 = parses w1"
    unfolding parses_def by simp
  have run1: "conn r1 = conn (process_files w1 s1 found)"
    using h snd_main_directory(2)[of w1 directory found db] by (simp add: r1_def s1_def)
  have "\<forall>p\<in>set found. p \<in> ledger (conn (process_files w1 s1 found)) \<or> \<not> parses w1 p"
    using h by (intro process_files_ledgers) simp
  then have settled: "\<forall>p\<in>set found. p \<in> ledger (conn s2) \<or> \<not> parses w2 p"
    by (simp add: same run1 s2_def new_run_def)
  note unchanged = process_files_settled[OF settled]
  have m2: "setup_ok w2" "directory \<noteq> ''''" "findCSVFiles (walk w2) directory = (found, False)"
    using h by simp_all
  note run2 = snd_main_directory[OF m2, of "conn r1", folded s2_def r2_def]
  have code: "fst (main w2 '''' directory (conn r1)) = 0"
    by (rule snd_main_directory(1)[OF m2])
  have p0: "processedFiles r2 = 0" and t0: "totalRecords r2 = 0" and c2: "conn r2 = conn r1"
    using run2 unchanged by (simp_all add: s2_def new_run_def)
  have l2: "last (stdout r2) = DirectoryCompleted 0 (failedFiles r2) 0"
    using run2 unchanged by (simp add: s2_def new_run_def)
  have once: "locations (conn r2) = locations db @ concat (map (records_of w1) found)"
    if "distinct found \<and> set found \<inter> ledger db = {}"
  proof -
    have "locations (conn (process_files w1 s1 found))
            = locations (conn s1) @ concat (map (records_of w1) found)"
      using that h by (intro process_files_fresh[THEN conjunct1]) (auto simp: s1_def new_run_def)
    then show ?thesis by (simp add: c2 run1 s1_def new_run_def)
  qed
  show "let r1 = snd (main w1 '''' directory db);
           run2 = main w2 '''' directory (conn r1);
           r2 = snd run2
       in fst run2 = 0 \<and> processedFiles r2 = 0 \<and> totalRecords r2 = 0 \<and>
          last (stdout r2) = DirectoryCompleted 0 (failedFiles r2) 0 \<and>
          conn r2 = conn r1 \<and>
          (distinct found \<and> set found \<inter> ledger db = {} \<longrightarrow>
             locations (conn r2) = locations db @ concat (map (records_of w1) found))"
    unfolding Let_def
    using code p0 t0 l2 c2 once by (simp add: r1_def r2_def)
qed

lemma insert_down_world_simps:
  "files insert_down_world = demo_files" "parse_float insert_down_world = ParseFloat"
  "walk insert_down_world = demo_walk" "setup_ok insert_down_world"
  "query_fails insert_down_world p = False" "copy_fails insert_down_world p = True"
  by (simp_all add: insert_down_world_def demo_world_def setup_ok_def)

theorem directory_import_idempotent_witness:
  "process_file (demo_world\<lparr>files := Map.empty\<rparr>)
     (new_run \<lparr>locations = [scenario_record], processed_files = [(''data/a.csv'', 1)]\<rparr>)
     ''data/a.csv'' =
     (new_run \<lparr>locations = [scenario_record], processed_files = [(''data/a.csv'', 1)]\<rparr>)
       \<lparr>stdout := [ProcessingFile ''data/a.csv'', SkippingProcessed ''data/a.csv'']\<rparr> \<and>
   (let r1 = snd (main demo_world '''' ''data'' empty_db);
        run2 = main insert_down_world '''' ''data'' (conn r1);
        r2 = snd run2
    in fst run2 = 0 \<and> processedFiles r2 = 0 \<and> totalRecords r2 = 0 \<and>
       last (stdout r2) = DirectoryCompleted 0 (failedFiles r2) 0 \<and>
       conn r2 = conn r1 \<and>
       locations (conn r2) = [scenario_record, akasaka_record, akasaka_record])"
proof -
  have seeded: "isFileProcessed (query_fails demo_world ''data/a.csv'')
      (conn (new_run \<lparr>locations = [scenario_record], processed_files = [(''data/a.csv'', 1)]\<rparr>))
      ''data/a.csv'' = Some True"
    by (simp add: isFileProcessed_def demo_world_simps new_run_def)
  have hyps: "setup_ok demo_world \<and> setup_ok insert_down_world \<and> ''data'' \<noteq> '''' \<and>
    findCSVFiles (walk demo_world) ''data''
      = ([''data/a.csv'', ''data/b.csv'', ''data/c.csv''], False) \<and>
    findCSVFiles (walk insert_down_world) ''data''
      = ([''data/a.csv'', ''data/b.csv'', ''data/c.csv''], False) \<and>
    files insert_down_world = files demo_world \<and>
    parse_float insert_down_world = parse_float demo_world \<and>
    (\<forall>p\<in>set [''data/a.csv'', ''data/b.csv'', ''data/c.csv''].
       \<not> query_fails demo_world p \<and> \<not> copy_fails demo_world p \<and> \<not> exec_fails demo_world p)"
    by (simp add: demo_world_simps insert_down_world_simps findCSVFiles_demo)
  have fresh: "distinct [''data/a.csv'', ''data/b.csv'', ''data/c.csv''] \<and>
    set [''data/a.csv'', ''data/b.csv'', ''data/c.csv''] \<inter> ledger empty_db = {}"
    by (simp add: ledger_def empty_db_def)
  note inst = directory_import_idempotent[where w = demo_world and p = "''data/a.csv''"
      and r = "new_run \<lparr>locations = [scenario_record], processed_files = [(''data/a.csv'', 1)]\<rparr>"
      and any_files = Map.empty and ?w1.0 = demo_world and ?w2.0 = insert_down_world
      and directory = "''data''" and found = "[''data/a.csv'', ''data/b.csv'', ''data/c.csv'']"
      and db = empty_db]
  have skip: "process_file (demo_world\<lparr>files := Map.empty\<rparr>)
     (new_run \<lparr>locations = [scenario_record], processed_files = [(''data/a.csv'', 1)]\<rparr>)
     ''data/a.csv'' =
     (new_run \<lparr>locations = [scenario_record], processed_files = [(''data/a.csv'', 1)]\<rparr>)
       \<lparr>stdout := [ProcessingFile ''data/a.csv'', SkippingProcessed ''data/a.csv'']\<rparr>"
    using inst[THEN conjunct1, rule_format, OF seeded] by (simp add: new_run_def)
  have twice: "let r1 = snd (main demo_world '''' ''data'' empty_db);
        run2 = main insert_down_world '''' ''data'' (conn r1);
        r2 = snd run2
    in fst run2 = 0 \<and> processedFiles r2 = 0 \<and> totalRecords r2 = 0 \<and>
       last (stdout r2) = DirectoryCompleted 0 (failedFiles r2) 0 \<and>
       conn r2 = conn r1 \<and>
       locations (conn r2) = locations empty_db @
         concat (map (records_of demo_world) [''data/a.csv'', ''data/b.csv'', ''data/c.csv''])"
    using inst[THEN conjunct2, rule_format, OF hyps] fresh unfolding Let_def by blast
  have "locations empty_db @
         concat (map (records_of demo_world) [''data/a.csv'', ''data/b.csv'', ''data/c.csv''])
        = [scenario_record, akasaka_record, akasaka_record]"
    by (simp add: demo_parses empty_db_def)
  with skip twice show ?thesis by (simp only:)
qed

section \<open>Isolation of per-file failures\<close>

text \<open>
  C2. In directory mode, a file that is not in the ledger and whose parse or bulk
  insert fails adds one to the failed-file counter and leaves the store (so also the
  ledger) and the other counters as they were; the loop goes on with the remaining
  files, and at the end of the run the file still has no ledger entry. A directory
  import that gets past the start-up and the discovery exits with code 0 whatever
  happens to its files. When the discovered files are new to the ledger and the
  ledger query and bulk insert do not fail, the run counts the files that parse as
  processed and the others as failed, and the store gains exactly the records of the
  files that parse.
\<close>

theorem per_file_failure_isolation:
  "(isFileProcessed (query_fails w p) (conn r) p = Some False \<and>
    (\<not> parses w p \<or> copy_fails w p) \<longrightarrow>
      failedFiles (process_file w r p) = failedFiles r + 1 \<and>
      conn (process_file w r p) = conn r \<and>
      processedFiles (process_file w r p) = processedFiles r \<and>
      totalRecords (process_file w r p) = totalRecords r \<and>
      process_files w r (p # rest) = process_files w (process_file w r p) rest) \<and>
   (setup_ok w \<and> directory \<noteq> '''' \<and> findCSVFiles (walk w) directory = (found, False) \<longrightarrow>
      fst (main w '''' directory db) = 0 \<and>
      (\<forall>p. p \<notin> ledger db \<and> (\<not> parses w p \<or> copy_fails w p) \<longrightarrow>
           p \<notin> ledger (conn (snd (main w '''' directory db)))) \<and>
      (distinct found \<and> set found \<inter> ledger db = {} \<and>
       (\<forall>p\<in>set found. \<not> query_fails w p \<and> \<not> copy_fails w p) \<longrightarrow>
         processedFiles (snd (main w '''' directory db)) = length (filter (parses w) found) \<and>
         failedFiles (snd (main w '''' directory db))
           = length (filter (\<lambda>p. \<not> parses w p) found) \<and>
         totalRecords (snd (main w '''' directory db))
           = length (concat (map (records_of w) found)) \<and>
         locations (conn (snd (main w '''' directory db)))
           = locations db @ concat (map (records_of w) found)))"
proof (intro conjI impI allI)
  assume h: "isFileProcessed (query_fails w p) (conn r) p = Some False \<and>
    (\<not> parses w p \<or> copy_fails w p)"
  then have q: "\<not> query_fails w p" "p \<notin> ledger (conn r)"
    by (simp_all add: isFileProcessed_iff)
  from h have "\<not> parses w p \<or> copy_fails w p" by simp
  then consider e where "parseCSV (files w) (parse_float w) p = Inl e"
    | records where "parseCSV (files w) (parse_float w) p = Inr records" "copy_fails w p"
    by (cases "parseCSV (files w) (parse_float w) p") (auto simp add: parses_def)
  then have step: "failedFiles (process_file w r p) = failedFiles r + 1 \<and>
      conn (process_file w r p) = conn r \<and>
      processedFiles (process_file w r p) = processedFiles r \<and>
      totalRecords (process_file w r p) = totalRecords r"
  proof cases
    case 1
    then show ?thesis using q by (simp add: process_file_parse_error)
  next
    case 2
    then show ?thesis using q by (simp add: process_file_insert_error)
  qed
  from step show "failedFiles (process_file w r p) = failedFiles r + 1" by simp
  from step show "conn (process_file w r p) = conn r" by simp
  from step show "processedFiles (process_file w r p) = processedFiles r" by simp
  from step show "totalRecords (process_file w r p) = totalRecords r" by simp
  show "process_files w r (p # rest) = process_files w (process_file w r p) rest" by simp
next
  assume h: "setup_ok w \<and> directory \<noteq> '''' \<and> findCSVFiles (walk w) directory = (found, False)"
  then show "fst (main w '''' directory db) = 0"
    by (intro snd_main_directory(1)) simp_all
next
  fix p
  assume h: "setup_ok w \<and> directory \<noteq> '''' \<and> findCSVFiles (walk w) directory = (found, False)"
    and p: "p \<notin> ledger db \<and> (\<not> parses w p \<or> copy_fails w p)"
  have "conn (snd (main w '''' directory db)) =
          conn (process_files w
                 ((new_run db)\<lparr>stdout := [StartingDirectory directory, Found (length found)]\<rparr>)
                 found)"
    using h by (intro snd_main_directory(2)) simp_all
  then show "p \<notin> ledger (conn (snd (main w '''' directory db)))"
    using p process_files_failed_entry[of w p] by (simp add: new_run_def)
next
  assume h: "setup_ok w \<and> directory \<noteq> '''' \<and> findCSVFiles (walk w) directory = (found, False)"
    and f: "distinct found \<and> set found \<inter> ledger db = {} \<and>
       (\<forall>p\<in>set found. \<not> query_fails w p \<and> \<not> copy_fails w p)"
  define r0 where
    "r0 = (new_run db)\<lparr>stdout := [StartingDirectory directory, Found (length found)]\<rparr>"
  have m: "setup_ok w" "directory \<noteq> ''''" "findCSVFiles (walk w) directory = (found, False)"
    using h by simp_all
  note run = snd_main_directory[OF m, of db, folded r0_def]
  have "locations (conn (process_files w r0 found))
           = locations (conn r0) @ concat (map (records_of w) found) \<and>
         processedFiles (process_files w r0 found)
           = processedFiles r0 + length (filter (parses w) found) \<and>
         failedFiles (process_files w r0 found)
           = failedFiles r0 + length (filter (\<lambda>p. \<not> parses w p) found) \<and>
         totalRecords (process_files w r0 found)
           = totalRecords r0 + length (concat (map (records_of w) found))"
    using f by (intro process_files_fresh) (auto simp add: r0_def new_run_def)
  then have all: "locations (conn (snd (main w '''' directory db)))
           = locations db @ concat (map (records_of w) found) \<and>
         processedFiles (snd (main w '''' directory db)) = length (filter (parses w) found) \<and>
         failedFiles (snd (main w '''' directory db))
           = length (filter (\<lambda>p. \<not> parses w p) found) \<and>
         totalRecords (snd (main w '''' directory db))
           = length (concat (map (records_of w) found))"
    using run by (simp add: r0_def new_run_def)
  from all show "processedFiles (snd (main w '''' directory db)) = length (filter (parses w) found)"
    by simp
  from all show "failedFiles (snd (main w '''' directory db))
           = length (filter (\<lambda>p. \<not> parses w p) found)"
    by simp
  from all show "totalRecords (snd (main w '''' directory db))
           = length (concat (map (records_of w) found))"
    by simp
  from all show "locations (conn (snd (main w '''' directory db)))
           = locations db @ concat (map (records_of w) found)"
    by simp
qed

text \<open>The scenario of C2: the directory \<open>data\<close> holds the well-formed files \<open>a.csv\<close>
  and \<open>c.csv\<close> and the malformed \<open>b.csv\<close>.\<close>

theorem per_file_failure_isolation_witness:
  "failedFiles (process_file demo_world (new_run empty_db) ''data/b.csv'') = 1 \<and>
   conn (process_file demo_world (new_run empty_db) ''data/b.csv'') = empty_db \<and>
   fst (main demo_world '''' ''data'' empty_db) = 0 \<and>
   ''data/b.csv'' \<notin> ledger (conn (snd (main demo_world '''' ''data'' empty_db))) \<and>
   processedFiles (snd (main demo_world '''' ''data'' empty_db)) = 2 \<and>
   failedFiles (snd (main demo_world '''' ''data'' empty_db)) = 1 \<and>
   totalRecords (snd (main demo_world '''' ''data'' empty_db)) = 3 \<and>
   locations (conn (snd (main demo_world '''' ''data'' empty_db)))
     = [scenario_record, akasaka_record, akasaka_record]"
proof -
  note inst = per_file_failure_isolation[where w = demo_world and p = "''data/b.csv''"
      and r = "new_run empty_db" and rest = "[]" and directory = "''data''"
      and found = "[''data/a.csv'', ''data/b.csv'', ''data/c.csv'']" and db = empty_db]
  have bad: "isFileProcessed (query_fails demo_world ''data/b.csv'') (conn (new_run empty_db))
               ''data/b.csv'' = Some False \<and>
             (\<not> parses demo_world ''data/b.csv'' \<or> copy_fails demo_world ''data/b.csv'')"
    by (simp add: isFileProcessed_def demo_world_simps demo_parses new_run_def empty_db_def)
  have start: "setup_ok demo_world \<and> ''data'' \<noteq> '''' \<and>
      findCSVFiles (walk demo_world) ''data''
        = ([''data/a.csv'', ''data/b.csv'', ''data/c.csv''], False)"
    by (simp add: demo_world_simps findCSVFiles_demo)
  have fresh: "distinct [''data/a.csv'', ''data/b.csv'', ''data/c.csv''] \<and>
      set [''data/a.csv'', ''data/b.csv'', ''data/c.csv''] \<inter> ledger empty_db = {} \<and>
      (\<forall>p\<in>set [''data/a.csv'', ''data/b.csv'', ''data/c.csv''].
         \<not> query_fails demo_world p \<and> \<not> copy_fails demo_world p)"
    by (simp add: ledger_def empty_db_def demo_world_simps)
  have entry: "''data/b.csv'' \<notin> ledger empty_db \<and>
      (\<not> parses demo_world ''data/b.csv'' \<or> copy_fails demo_world ''data/b.csv'')"
    by (simp add: ledger_def empty_db_def demo_parses)
  note one = inst[THEN conjunct1, rule_format, OF bad]
  note run = inst[THEN conjunct2, rule_format, OF start]
  note counts = run[THEN conjunct2, THEN conjunct2, rule_format, OF fresh]
  from one run[THEN conjunct1] run[THEN conjunct2, THEN conjunct1, rule_format, OF entry] counts
  show ?thesis
    by (simp add: demo_parses new_run_def empty_db_def)
qed

section \<open>The coordinates that reach the store\<close>

lemma parse_rows_origin:
  "parse_rows pf rd acc = Inr recs \<Longrightarrow> x \<in> set recs \<Longrightarrow>
   x \<in> set acc \<or>
   (\<exists>row. Record row \<in> set rd \<and> 11 \<le> length row \<and>
          pf (row ! 9) = Some (Lat x) \<and> pf (row ! 10) = Some (Lon x))"
proof (induction pf rd acc rule: parse_rows.induct)
  case (1 pf records)
  then show ?case by simp
next
  case (2 pf e rest records)
  then show ?case by (simp split: if_splits)
next
  case (3 pf row rest records)
  show ?case
  proof (cases "length row < 11")
    case True
    with 3 show ?thesis by simp
  next
    case long: False
    show ?thesis
    proof (cases "pf (row ! 9)")
      case None
      with 3 long show ?thesis by simp
    next
      case lat: (Some lat)
      show ?thesis
      proof (cases "pf (row ! 10)")
        case None
        with 3 long lat show ?thesis by simp
      next
        case lon: (Some lon)
        let ?new = "\<lparr>Prefecture = row ! 0, Municipality = row ! 1, Address1 = row ! 2,
                      Address2 = row ! 3, BlockLot = row ! 4, Lat = lat, Lon = lon\<rparr>"
        from "3.prems" long lat lon
        have run: "parse_rows pf rest (records @ [?new]) = Inr recs" by simp
        from "3.IH"[OF long lat lon run "3.prems"(2)]
        consider "x \<in> set records" | "x = ?new"
          | "\<exists>row. Record row \<in> set rest \<and> 11 \<le> length row \<and>
                   pf (row ! 9) = Some (Lat x) \<and> pf (row ! 10) = Some (Lon x)"
          by auto
        then show ?thesis
        proof cases
          case 1
          then show ?thesis by simp
        next
          case 2
          with long lat lon show ?thesis by (intro disjI2 exI[of _ row]) simp
        next
          case 3
          then show ?thesis by auto
        qed
      qed
    qed
  qed
qed

lemma parseCSV_origin:
  assumes "parseCSV fs pf p = Inr recs" "x \<in> set recs"
  shows "\<exists>rd row. fs p = Some rd \<and> Record row \<in> set (tl rd) \<and> 11 \<le> length row \<and>
           pf (row ! 9) = Some (Lat x) \<and> pf (row ! 10) = Some (Lon x)"
proof -
  from assms(1) obtain header rest where rd: "fs p = Some (Record header # rest)"
    and run: "parse_rows pf rest [] = Inr recs"
    by (auto simp add: parseCSV_def split: option.splits list.splits csv_read.splits)
  from parse_rows_origin[OF run assms(2)] rd show ?thesis by auto
qed

lemma import_file_parse_error:
  "parseCSV (files w) (parse_float w) file = Inl e \<Longrightarrow>
   import_file w r file = (1, r\<lparr>stdout := stdout r @ [StartingFile file, ErrParsingCSV e]\<rparr>)"
  by (simp add: import_file_def print_def)

lemma import_file_insert_error:
  "parseCSV (files w) (parse_float w) file = Inr records \<Longrightarrow> copy_fails w file \<Longrightarrow>
   import_file w r file =
     (1, r\<lparr>stdout := stdout r @ [StartingFile file, Parsed (length records), ErrInserting]\<rparr>)"
  by (simp add: import_file_def insertRecords_def print_def)

lemma import_file_inserted:
  "parseCSV (files w) (parse_float w) file = Inr records \<Longrightarrow> \<not> copy_fails w file \<Longrightarrow>
   import_file w r file =
     (case verifyImport (count_fails w) (sample_fails w)
             ((conn r)\<lparr>locations := locations (conn r) @ records\<rparr>) (length records) of
        (Some e, ms) \<Rightarrow>
          (1, r\<lparr>conn := (conn r)\<lparr>locations := locations (conn r) @ records\<rparr>,
                stdout := stdout r @ [StartingFile file, Parsed (length records)] @ ms @
                          [ErrVerifying e]\<rparr>)
      | (None, ms) \<Rightarrow>
          (0, r\<lparr>conn := (conn r)\<lparr>locations := locations (conn r) @ records\<rparr>,
                stdout := stdout r @ [StartingFile file, Parsed (length records)] @ ms @
                          [SuccessImported (length records)]\<rparr>))"
  by (simp add: import_file_def insertRecords_def print_def split: prod.splits option.splits)

lemma import_file_cases:
  obtains (parse) e where "parseCSV (files w) (parse_float w) path = Inl e"
  | (insert) records where "parseCSV (files w) (parse_float w) path = Inr records"
      "copy_fails w path"
  | (inserted) records where "parseCSV (files w) (parse_float w) path = Inr records"
      "\<not> copy_fails w path"
  by (cases "parseCSV (files w) (parse_float w) path") blast+

lemma import_file_conn:
  "conn (snd (import_file w r file)) =
     (if parses w file \<and> \<not> copy_fails w file
      then (conn r)\<lparr>locations := locations (conn r) @ records_of w file\<rparr>
      else conn r)"
  by (rule import_file_cases[where w=w and path="file"])
     (auto simp add: import_file_parse_error import_file_insert_error import_file_inserted
        parses_def records_of_def split: prod.splits option.splits)

lemma verifyImport_succeeds:
  "fst (verifyImport cf sf db n) = None \<longleftrightarrow>
     \<not> cf \<and> n \<le> length (locations db) \<and> \<not> sf \<and> locations db \<noteq> []"
  by (auto simp add: verifyImport_def Let_def)

lemma import_file_exit:
  assumes "parseCSV (files w) (parse_float w) file = Inr records" "\<not> copy_fails w file"
  shows "fst (import_file w r file) = 0 \<longleftrightarrow>
           fst (verifyImport (count_fails w) (sample_fails w)
                  ((conn r)\<lparr>locations := locations (conn r) @ records\<rparr>) (length records)) = None"
  by (simp add: import_file_inserted[OF assms] split: prod.splits option.splits)

lemma import_file_exit_ok:
  assumes "fst (import_file w r file) = 0"
  shows "parses w file \<and> \<not> copy_fails w file"
  using assms
  by (rule_tac import_file_cases[where w=w and path="file"])
     (auto simp add: import_file_parse_error import_file_insert_error parses_def)

lemma main_file:
  "setup_ok w \<Longrightarrow> file \<noteq> '''' \<Longrightarrow> main w file '''' db = import_file w (new_run db) file"
  by (simp add: main_def setup_ok_def new_run_def)

lemma main_demo_polar:
  "locations (conn (snd (main demo_world '''' ''polar'' empty_db))) = [polar_record]"
proof -
  have "setup_ok demo_world" "''polar'' \<noteq> ''''"
    "findCSVFiles (walk demo_world) ''polar'' = ([''polar.csv''], False)"
    by (simp_all add: demo_world_simps findCSVFiles_demo)
  from snd_main_directory(2)[OF this, of empty_db] show ?thesis
    by (simp add: process_file_ledgered[where records = "[polar_record]"] demo_world_simps
        ledger_def new_run_def empty_db_def parseCSV_demo)
qed

text \<open>
  C3, as the code has it. Every record that a per-file step of a directory import or a
  single file import adds to the store has the latitude and the longitude that
  \<open>ParseFloat\<close> returned, without error, for columns 9 and 10 of a data row of the
  file with at least 11 columns. A file with a data row that is short or whose column
  9 or 10 does not parse leaves the store as it was. The tool checks neither a range
  nor finiteness.
\<close>

theorem stored_coordinates_are_parsed:
  "((locations (conn (process_file w r p)) = locations (conn r) @ added \<or>
     locations (conn (snd (import_file w r p))) = locations (conn r) @ added) \<and>
    x \<in> set added \<longrightarrow>
      (\<exists>rd row. files w p = Some rd \<and> Record row \<in> set (tl rd) \<and> 11 \<le> length row \<and>
          parse_float w (row ! 9) = Some (Lat x) \<and> parse_float w (row ! 10) = Some (Lon x))) \<and>
   (files w p = Some (Record header # map Record data_rows) \<and>
    (\<exists>row\<in>set data_rows. \<not> row_ok (parse_float w) row) \<longrightarrow>
      conn (process_file w r p) = conn r \<and> conn (snd (import_file w r p)) = conn r)"
proof (intro conjI impI)
  assume h: "(locations (conn (process_file w r p)) = locations (conn r) @ added \<or>
     locations (conn (snd (import_file w r p))) = locations (conn r) @ added) \<and> x \<in> set added"
  then have x: "x \<in> set added" by simp
  have "parseCSV (files w) (parse_float w) p = Inr added"
  proof -
    from h consider "locations (conn (process_file w r p)) = locations (conn r) @ added"
      | "locations (conn (snd (import_file w r p))) = locations (conn r) @ added"
      by blast
    then show ?thesis
    proof cases
      case 1
      with process_file_locations[of w r p] x show ?thesis by auto
    next
      case 2
      with x show ?thesis
        by (auto simp add: import_file_conn parses_def records_of_def
            split: if_splits sum.splits)
    qed
  qed
  from parseCSV_origin[OF this x]
  show "\<exists>rd row. files w p = Some rd \<and> Record row \<in> set (tl rd) \<and> 11 \<le> length row \<and>
          parse_float w (row ! 9) = Some (Lat x) \<and> parse_float w (row ! 10) = Some (Lon x)" .
next
  assume h: "files w p = Some (Record header # map Record data_rows) \<and>
    (\<exists>row\<in>set data_rows. \<not> row_ok (parse_float w) row)"
  then obtain bad where "find (\<lambda>row. \<not> row_ok (parse_float w) row) data_rows = Some bad"
    by (cases "find (\<lambda>row. \<not> row_ok (parse_float w) row) data_rows")
       (auto simp add: find_None_iff)
  with h have "parseCSV (files w) (parse_float w) p = Inl (row_error (parse_float w) bad)"
    by (simp add: parseCSV_def parse_rows_contract)
  then have no: "\<not> parses w p" by (simp add: parses_def)
  then show "conn (process_file w r p) = conn r"
    using process_file_settled[of p r w] by simp
  from no show "conn (snd (import_file w r p)) = conn r"
    by (simp add: import_file_conn)
qed

theorem stored_coordinates_are_parsed_witness:
  "(\<exists>rd row. files demo_world ''polar.csv'' = Some rd \<and> Record row \<in> set (tl rd) \<and>
       11 \<le> length row \<and> parse_float demo_world (row ! 9) = Some (Lat polar_record) \<and>
       parse_float demo_world (row ! 10) = Some (Lon polar_record)) \<and>
   conn (process_file demo_world (new_run empty_db) ''data/b.csv'') = empty_db"
proof -
  have added: "(locations (conn (process_file demo_world (new_run empty_db) ''polar.csv''))
          = locations (conn (new_run empty_db)) @ [polar_record] \<or>
        locations (conn (snd (import_file demo_world (new_run empty_db) ''polar.csv'')))
          = locations (conn (new_run empty_db)) @ [polar_record]) \<and>
       polar_record \<in> set [polar_record]"
    by (simp add: import_file_conn demo_parses demo_world_simps new_run_def empty_db_def)
  have bad: "files demo_world ''data/b.csv''
         = Some (Record header_row # map Record [[''Tokyo'', ''Minato'', ''Akasaka'']]) \<and>
       (\<exists>row\<in>set [[''Tokyo'', ''Minato'', ''Akasaka'']]. \<not> row_ok (parse_float demo_world) row)"
    by (simp add: demo_world_simps demo_files_def row_ok_def)
  from stored_coordinates_are_parsed[where w = demo_world and r = "new_run empty_db"
        and p = "''polar.csv''" and added = "[polar_record]" and x = polar_record,
        THEN conjunct1, rule_format, OF added]
    stored_coordinates_are_parsed[where w = demo_world and r = "new_run empty_db"
        and p = "''data/b.csv''" and header = header_row
        and data_rows = "[[''Tokyo'', ''Minato'', ''Akasaka'']]",
        THEN conjunct2, rule_format, OF bad]
  show ?thesis by (simp add: new_run_def)
qed

text \<open>C3 as stated fails: a directory import stores the row of \<open>polar.csv\<close>, whose
  latitude 95 and longitude 200 are beyond the ranges.\<close>

theorem stored_coordinates_range_counterexample:
  "locations (conn (snd (main demo_world '''' ''polar'' empty_db))) = [polar_record] \<and>
   Lat polar_record = Fin 95 \<and> Lon polar_record = Fin 200 \<and>
   \<not> inside (- 90) 90 (Lat polar_record) \<and> \<not> inside (- 180) 180 (Lon polar_record)"
  by (simp add: main_demo_polar polar_record_def inside_def)

section \<open>Single file mode and the ledger\<close>

lemma import_file_ledger_blind:
  "import_file w (r\<lparr>conn := (conn r)\<lparr>processed_files := entries\<rparr>\<rparr>) file =
     (fst (import_file w r file),
      (snd (import_file w r file))
        \<lparr>conn := (conn (snd (import_file w r file)))\<lparr>processed_files := entries\<rparr>\<rparr>)"
  by (rule import_file_cases[where w=w and path="file"])
     (auto simp add: import_file_def insertRecords_def verifyImport_def print_def Let_def)

text \<open>
  C8, as the code has it. The single file branch is what \<open>main\<close> runs for \<open>--file\<close>.
  Its outcome is the same for every content of the ledger, which it carries through
  untouched, so it neither consults nor writes the ledger and attempts the ingestion
  also for a file that is in it. After a successful insert the verification succeeds
  (exit code 0) if and only if the count query does not fail, the row count of the
  store is at least the number of records parsed, the probe of a sample geometry does
  not fail and the table is not empty.
\<close>

theorem single_file_mode_contract:
  "(setup_ok w \<and> file \<noteq> '''' \<longrightarrow> main w file '''' db = import_file w (new_run db) file) \<and>
   import_file w (r\<lparr>conn := (conn r)\<lparr>processed_files := entries\<rparr>\<rparr>) file =
     (fst (import_file w r file),
      (snd (import_file w r file))
        \<lparr>conn := (conn (snd (import_file w r file)))\<lparr>processed_files := entries\<rparr>\<rparr>) \<and>
   (parseCSV (files w) (parse_float w) file = Inr records \<and> \<not> copy_fails w file \<longrightarrow>
      locations (conn (snd (import_file w r file))) = locations (conn r) @ records \<and>
      (fst (import_file w r file) = 0 \<longleftrightarrow>
         \<not> count_fails w \<and> length records \<le> length (locations (conn r) @ records) \<and>
         \<not> sample_fails w \<and> locations (conn r) @ records \<noteq> []))"
proof (intro conjI impI)
  assume "setup_ok w \<and> file \<noteq> ''''"
  then show "main w file '''' db = import_file w (new_run db) file"
    by (simp add: main_file)
next
  show "import_file w (r\<lparr>conn := (conn r)\<lparr>processed_files := entries\<rparr>\<rparr>) file =
     (fst (import_file w r file),
      (snd (import_file w r file))
        \<lparr>conn := (conn (snd (import_file w r file)))\<lparr>processed_files := entries\<rparr>\<rparr>)"
    by (rule import_file_ledger_blind)
next
  assume h: "parseCSV (files w) (parse_float w) file = Inr records \<and> \<not> copy_fails w file"
  then show "locations (conn (snd (import_file w r file))) = locations (conn r) @ records"
    by (simp add: import_file_conn parses_def records_of_def)
next
  assume h: "parseCSV (files w) (parse_float w) file = Inr records \<and> \<not> copy_fails w file"
  then have "fst (import_file w r file) = 0 \<longleftrightarrow>
           fst (verifyImport (count_fails w) (sample_fails w)
                  ((conn r)\<lparr>locations := locations (conn r) @ records\<rparr>) (length records)) = None"
    by (intro import_file_exit) simp_all
  then show "fst (import_file w r file) = 0 \<longleftrightarrow>
         \<not> count_fails w \<and> length records \<le> length (locations (conn r) @ records) \<and>
         \<not> sample_fails w \<and> locations (conn r) @ records \<noteq> []"
    by (simp add: verifyImport_succeeds)
qed

text \<open>The witness imports \<open>data/a.csv\<close> into a store whose ledger already holds that
  file: the record is inserted all the same and the run exits with code 0.\<close>

theorem single_file_mode_contract_witness:
  "main demo_world ''data/a.csv'' '''' \<lparr>locations = [], processed_files = [(''data/a.csv'', 1)]\<rparr>
     = import_file demo_world
         (new_run \<lparr>locations = [], processed_files = [(''data/a.csv'', 1)]\<rparr>) ''data/a.csv'' \<and>
   locations (conn (snd (import_file demo_world
       (new_run \<lparr>locations = [], processed_files = [(''data/a.csv'', 1)]\<rparr>) ''data/a.csv'')))
     = [scenario_record] \<and>
   fst (import_file demo_world
       (new_run \<lparr>locations = [], processed_files = [(''data/a.csv'', 1)]\<rparr>) ''data/a.csv'') = 0"
proof -
  note inst = single_file_mode_contract[where w = demo_world and ?file = "''data/a.csv''"
      and db = "\<lparr>locations = [], processed_files = [(''data/a.csv'', 1)]\<rparr>"
      and r = "new_run \<lparr>locations = [], processed_files = [(''data/a.csv'', 1)]\<rparr>"
      and records = "[scenario_record]"]
  have start: "setup_ok demo_world \<and> ''data/a.csv'' \<noteq> ''''"
    by (simp add: demo_world_simps)
  have parsed: "parseCSV (files demo_world) (parse_float demo_world) ''data/a.csv''
                  = Inr [scenario_record] \<and> \<not> copy_fails demo_world ''data/a.csv''"
    by (simp add: demo_world_simps parseCSV_demo)
  from inst[THEN conjunct1, rule_format, OF start]
    inst[THEN conjunct2, THEN conjunct2, rule_format, OF parsed]
  show ?thesis by (simp add: demo_world_simps new_run_def)
qed

text \<open>C8 as stated fails: importing the file that holds only a header into the empty
  store parses 0 records and leaves 0 rows, so the row count is at least the number of
  records, yet the verification fails on the sample probe and the exit code is 1.\<close>

theorem verification_counterexample:
  "parseCSV (files demo_world) (parse_float demo_world) ''header.csv'' = Inr [] \<and>
   length ([] :: LocationRecord list)
     \<le> length (locations (conn (snd (main demo_world ''header.csv'' '''' empty_db)))) \<and>
   fst (main demo_world ''header.csv'' '''' empty_db) = 1 \<and>
   last (stdout (snd (main demo_world ''header.csv'' '''' empty_db)))
     = ErrVerifying GeomCheckFailed"
  by (simp add: main_file demo_world_simps parseCSV_demo import_file_inserted verifyImport_def
      new_run_def empty_db_def)

lemma process_files_reinserts:
  assumes "f \<in> set fs" "f \<notin> ledger (conn r)" "\<not> query_fails w f" "\<not> copy_fails w f"
  shows "\<exists>before after. locations (conn (process_files w r fs))
           = locations (conn r) @ before @ records_of w f @ after"
  using assms(1,2)
proof (induction fs arbitrary: r)
  case Nil
  then show ?case by simp
next
  case (Cons p fs)
  show ?case
  proof (cases "p = f")
    case True
    have "locations (conn (process_file w r f)) = locations (conn r) @ records_of w f"
      using Cons.prems assms(3,4) process_file_fresh[of w f r] by simp
    moreover obtain after where
      "locations (conn (process_files w (process_file w r f) fs))
         = locations (conn (process_file w r f)) @ after"
      using process_files_locations[of w "process_file w r f" fs] by blast
    ultimately have "locations (conn (process_files w r (p # fs)))
         = locations (conn r) @ [] @ records_of w f @ after"
      using True by simp
    then show ?thesis by blast
  next
    case False
    then have "f \<in> set fs" using Cons.prems by simp
    moreover have "f \<notin> ledger (conn (process_file w r p))"
      using False Cons.prems process_file_ledger_bound[of w r p] by blast
    ultimately obtain before after where
      rest: "locations (conn (process_files w (process_file w r p) fs))
         = locations (conn (process_file w r p)) @ before @ records_of w f @ after"
      using Cons.IH by blast
    obtain a where "locations (conn (process_file w r p)) = locations (conn r) @ a"
      using process_file_locations[of w r p] by blast
    with rest have "locations (conn (process_files w r (p # fs)))
         = locations (conn r) @ (a @ before) @ records_of w f @ after"
      by simp
    then show ?thesis by blast
  qed
qed

lemma main_single_ledger:
  "processed_files (conn (snd (main w file '''' db))) = processed_files db"
  by (simp add: main_def Let_def import_file_conn print_def)

text \<open>
  C9. A run with \<open>--file\<close> leaves the ledger as it was, whatever its outcome. So
  after a successful one (exit code 0), which has appended the records of the file to
  the store, a second single file import of the same file whose insert does not fail
  appends them once more, and a directory import that discovers the file, finds it
  absent from the ledger (as it was before the first run) and whose ledger query and
  insert for it do not fail, appends them once more as well.
\<close>

theorem single_file_import_not_ledgered:
  "processed_files (conn (snd (import_file w r file))) = processed_files (conn r) \<and>
   processed_files (conn (snd (main w file '''' db))) = processed_files db \<and>
   (setup_ok w \<and> file \<noteq> '''' \<and> fst (main w file '''' db) = 0 \<longrightarrow>
      locations (conn (snd (main w file '''' db))) = locations db @ records_of w file \<and>
      (setup_ok w2 \<and> files w2 = files w \<and> parse_float w2 = parse_float w \<and>
       \<not> copy_fails w2 file \<longrightarrow>
         locations (conn (snd (main w2 file '''' (conn (snd (main w file '''' db))))))
           = locations db @ records_of w file @ records_of w file) \<and>
      (setup_ok w2 \<and> files w2 = files w \<and> parse_float w2 = parse_float w \<and>
       directory \<noteq> '''' \<and> findCSVFiles (walk w2) directory = (found, False) \<and>
       file \<in> set found \<and> file \<notin> ledger db \<and>
       \<not> query_fails w2 file \<and> \<not> copy_fails w2 file \<longrightarrow>
         (\<exists>before after.
            locations (conn (snd (main w2 '''' directory (conn (snd (main w file '''' db))))))
              = locations db @ records_of w file @ before @ records_of w file @ after)))"
proof (intro conjI impI)
  show "processed_files (conn (snd (import_file w r file))) = processed_files (conn r)"
    by (simp add: import_file_conn)
  show "processed_files (conn (snd (main w file '''' db))) = processed_files db"
    by (rule main_single_ledger)
next
  assume h: "setup_ok w \<and> file \<noteq> '''' \<and> fst (main w file '''' db) = 0"
  then have m: "main w file '''' db = import_file w (new_run db) file"
    by (simp add: main_file)
  with h have ok: "parses w file \<and> \<not> copy_fails w file"
    using import_file_exit_ok[of w "new_run db" "file"] by simp
  then show first: "locations (conn (snd (main w file '''' db))) = locations db @ records_of w file"
    by (simp add: m import_file_conn new_run_def)
  {
    assume h2: "setup_ok w2 \<and> files w2 = files w \<and> parse_float w2 = parse_float w \<and>
       \<not> copy_fails w2 file"
    then have same: "parses w2 file = parses w file" "records_of w2 file = records_of w file"
      by (simp_all add: parses_def records_of_def)
    from h h2 have "main w2 file '''' (conn (snd (main w file '''' db)))
        = import_file w2 (new_run (conn (snd (main w file '''' db)))) file"
      by (simp add: main_file)
    then show "locations (conn (snd (main w2 file '''' (conn (snd (main w file '''' db))))))
           = locations db @ records_of w file @ records_of w file"
      using ok h2 same first by (simp add: import_file_conn new_run_def)
  }
  {
    assume h3: "setup_ok w2 \<and> files w2 = files w \<and> parse_float w2 = parse_float w \<and>
       directory \<noteq> '''' \<and> findCSVFiles (walk w2) directory = (found, False) \<and>
       file \<in> set found \<and> file \<notin> ledger db \<and>
       \<not> query_fails w2 file \<and> \<not> copy_fails w2 file"
    define db1 where "db1 = conn (snd (main w file '''' db))"
    define r0 where
      "r0 = (new_run db1)\<lparr>stdout := [StartingDirectory directory, Found (length found)]\<rparr>"
    from h3 have same: "records_of w2 file = records_of w file"
      by (simp add: records_of_def)
    have "processed_files db1 = processed_files db"
      unfolding db1_def by (rule main_single_ledger)
    with h3 have absent: "file \<notin> ledger (conn r0)"
      by (simp add: ledger_def r0_def new_run_def)
    have m2: "setup_ok w2" "directory \<noteq> ''''" "findCSVFiles (walk w2) directory = (found, False)"
      using h3 by simp_all
    have run: "conn (snd (main w2 '''' directory db1)) = conn (process_files w2 r0 found)"
      unfolding r0_def by (rule snd_main_directory(2)[OF m2])
    from h3 have "file \<in> set found" "\<not> query_fails w2 file" "\<not> copy_fails w2 file"
      by simp_all
    from process_files_reinserts[OF this(1) absent this(2,3)]
    obtain before after where
      "locations (conn (process_files w2 r0 found))
         = locations (conn r0) @ before @ records_of w2 file @ after"
      by blast
    then have "locations (conn (snd (main w2 '''' directory db1)))
         = locations db @ records_of w file @ before @ records_of w file @ after"
      using run same first by (simp add: r0_def new_run_def db1_def)
    then show "\<exists>before after.
            locations (conn (snd (main w2 '''' directory (conn (snd (main w file '''' db))))))
              = locations db @ records_of w file @ before @ records_of w file @ after"
      unfolding db1_def by blast
  }
qed

lemma main_demo_single:
  "fst (main demo_world ''data/a.csv'' '''' empty_db) = 0"
  by (simp add: main_file demo_world_simps parseCSV_demo import_file_inserted verifyImport_def
      new_run_def empty_db_def)

theorem single_file_import_not_ledgered_witness:
  "processed_files (conn (snd (main demo_world ''data/a.csv'' '''' empty_db))) = [] \<and>
   locations (conn (snd (main demo_world ''data/a.csv'' '''' empty_db))) = [scenario_record] \<and>
   locations (conn (snd (main demo_world ''data/a.csv'' ''''
       (conn (snd (main demo_world ''data/a.csv'' '''' empty_db))))))
     = [scenario_record, scenario_record] \<and>
   (\<exists>before after.
      locations (conn (snd (main demo_world '''' ''data''
          (conn (snd (main demo_world ''data/a.csv'' '''' empty_db))))))
        = [scenario_record] @ before @ [scenario_record] @ after)"
proof -
  note inst = single_file_import_not_ledgered[where w = demo_world and ?w2.0 = demo_world
      and ?file = "''data/a.csv''" and db = empty_db and directory = "''data''"
      and found = "[''data/a.csv'', ''data/b.csv'', ''data/c.csv'']"]
  have first: "setup_ok demo_world \<and> ''data/a.csv'' \<noteq> '''' \<and>
      fst (main demo_world ''data/a.csv'' '''' empty_db) = 0"
    by (simp add: demo_world_simps main_demo_single)
  have again: "setup_ok demo_world \<and> files demo_world = files demo_world \<and>
      parse_float demo_world = parse_float demo_world \<and> \<not> copy_fails demo_world ''data/a.csv''"
    by (simp add: demo_world_simps)
  have dir: "setup_ok demo_world \<and> files demo_world = files demo_world \<and>
      parse_float demo_world = parse_float demo_world \<and> ''data'' \<noteq> '''' \<and>
      findCSVFiles (walk demo_world) ''data''
        = ([''data/a.csv'', ''data/b.csv'', ''data/c.csv''], False) \<and>
      ''data/a.csv'' \<in> set [''data/a.csv'', ''data/b.csv'', ''data/c.csv''] \<and>
      ''data/a.csv'' \<notin> ledger empty_db \<and>
      \<not> query_fails demo_world ''data/a.csv'' \<and> \<not> copy_fails demo_world ''data/a.csv''"
    by (simp add: demo_world_simps findCSVFiles_demo ledger_def empty_db_def)
  note run = inst[THEN conjunct2, THEN conjunct2, rule_format, OF first]
  from inst[THEN conjunct2, THEN conjunct1]
    run[THEN conjunct1]
    run[THEN conjunct2, THEN conjunct1, rule_format, OF again]
    run[THEN conjunct2, THEN conjunct2, rule_format, OF dir]
  show ?thesis
    by (simp add: demo_parses empty_db_def)
qed

section \<open>Resolution services and endpoints\<close>

text \<open>
  C7. For every repository and every state of it: \<open>Geocode\<close> with the empty address
  returns an error and the repository's state as it was (no call was made); with any
  other address it returns what the repository returns, an error of the repository
  wrapped. \<open>ReverseGeocode\<close> with a latitude below -90 or above 90, or a longitude
  below -180 or above 180, returns an error and the state as it was, in particular for
  latitude 95; otherwise it returns what the repository returns, an error wrapped.
  The comparisons are those of the machine: NaN is neither below nor above a bound and
  is passed on to the repository.
\<close>

theorem service_input_validation:
  "Geocode repo s '''' = (Inl AddressEmpty, s) \<and>
   (address \<noteq> '''' \<longrightarrow>
      Geocode repo s address =
        (case repo s address of
           (Inl err, s') \<Rightarrow> (Inl (SearchFailed err), s')
         | (Inr locs, s') \<Rightarrow> (Inr locs, s'))) \<and>
   (outside (- 90) 90 lat \<longrightarrow>
      ReverseGeocode nearest t lat lon = (Inl (InvalidLatitudeArg lat), t)) \<and>
   (\<not> outside (- 90) 90 lat \<and> outside (- 180) 180 lon \<longrightarrow>
      ReverseGeocode nearest t lat lon = (Inl (InvalidLongitudeArg lon), t)) \<and>
   ReverseGeocode nearest t (Fin 95) lon = (Inl (InvalidLatitudeArg (Fin 95)), t) \<and>
   (\<not> outside (- 90) 90 lat \<and> \<not> outside (- 180) 180 lon \<longrightarrow>
      ReverseGeocode nearest t lat lon =
        (case nearest t lat lon of
           (Inl err, t') \<Rightarrow> (Inl (NearestFailed err), t')
         | (Inr location, t') \<Rightarrow> (Inr location, t')))"
  by (simp add: Geocode_def ReverseGeocode_def outside_def)

theorem service_input_validation_witness:
  "Geocode counting_search 0 '''' = (Inl AddressEmpty, 0) \<and>
   Geocode counting_search 0 ''Marunouchi'' = (Inr [marunouchi], 1) \<and>
   ReverseGeocode counting_nearest 0 (Fin 95) (Fin 0) = (Inl (InvalidLatitudeArg (Fin 95)), 0) \<and>
   ReverseGeocode counting_nearest 0 (Fin 0) (Fin 181) = (Inl (InvalidLongitudeArg (Fin 181)), 0) \<and>
   ReverseGeocode counting_nearest 0 (Fin 35) (Fin 139) = (Inr (Some marunouchi), 1)"
proof -
  have lat: "outside (- 90) 90 (Fin 95)" by (simp add: outside_def)
  have lon: "\<not> outside (- 90) 90 (Fin 0) \<and> outside (- 180) 180 (Fin 181)"
    by (simp add: outside_def)
  have ok: "\<not> outside (- 90) 90 (Fin 35) \<and> \<not> outside (- 180) 180 (Fin 139)"
    by (simp add: outside_def)
  have addr: "''Marunouchi'' \<noteq> ''''" by simp
  note a = service_input_validation[where repo = counting_search and s = 0
      and address = "''Marunouchi''" and nearest = counting_nearest and t = 0
      and lat = "Fin 95" and lon = "Fin 0"]
  note b = service_input_validation[where repo = counting_search and s = 0
      and address = "''Marunouchi''" and nearest = counting_nearest and t = 0
      and lat = "Fin 0" and lon = "Fin 181"]
  note c = service_input_validation[where repo = counting_search and s = 0
      and address = "''Marunouchi''" and nearest = counting_nearest and t = 0
      and lat = "Fin 35" and lon = "Fin 139"]
  from a[THEN conjunct1]
    a[THEN conjunct2, THEN conjunct1, rule_format, OF addr]
    a[THEN conjunct2, THEN conjunct2, THEN conjunct1, rule_format, OF lat]
    b[THEN conjunct2, THEN conjunct2, THEN conjunct2, THEN conjunct1, rule_format, OF lon]
    c[THEN conjunct2, THEN conjunct2, THEN conjunct2, THEN conjunct2, THEN conjunct2,
      rule_format, OF ok]
  show ?thesis
    by (simp add: counting_search_def counting_nearest_def)
qed

text \<open>
  C4, as the code has it by design. For every request, with the service on any
  repository: status 400 when \<open>lat\<close> or \<open>lon\<close> is missing or does not parse; status 500
  when the parsed latitude or longitude is out of range (the repository is not called)
  and when the repository returns an error; status 404 when the repository returns
  neither a location nor an error; status 200 with the location otherwise.
\<close>

theorem reverse_geocode_response_mapping:
  "ReverseGeocodeHandler pf (ReverseGeocode repo) s c =
     (if Query c ''lat'' = '''' \<or> Query c ''lon'' = ''''
      then ((StatusBadRequest, ErrorBody MissingParametersLatLon), s)
      else (case pf (Query c ''lat'') of
              None \<Rightarrow> ((StatusBadRequest, ErrorBody InvalidLatitudeFormat), s)
            | Some lat \<Rightarrow>
                (case pf (Query c ''lon'') of
                   None \<Rightarrow> ((StatusBadRequest, ErrorBody InvalidLongitudeFormat), s)
                 | Some lon \<Rightarrow>
                     (if outside (- 90) 90 lat \<or> outside (- 180) 180 lon
                      then ((StatusInternalServerError, ErrorBody InternalServerError), s)
                      else (case repo s lat lon of
                              (Inl err, s') \<Rightarrow>
                                ((StatusInternalServerError, ErrorBody InternalServerError), s')
                            | (Inr None, s') \<Rightarrow>
                                ((StatusNotFound, ErrorBody NoAddressFound), s')
                            | (Inr (Some location), s') \<Rightarrow>
                                ((StatusOK, LocationBody location), s'))))))"
  by (auto simp add: ReverseGeocodeHandler_def ReverseGeocode_def outside_def Let_def
      split: option.splits prod.splits sum.splits)

lemma Query_simps:
  "Query [''lat'' \<mapsto> a, ''lon'' \<mapsto> b] ''lat'' = a"
  "Query [''lat'' \<mapsto> a, ''lon'' \<mapsto> b] ''lon'' = b"
  "Query [''q'' \<mapsto> a] ''q'' = a"
  "Query Map.empty key = ''''"
  by (simp_all add: Query_def)

theorem reverse_geocode_response_mapping_witness:
  "ReverseGeocodeHandler ParseFloat (ReverseGeocode counting_nearest) 0
       [''lat'' \<mapsto> ''35.681236'', ''lon'' \<mapsto> ''139.767125'']
     = ((StatusOK, LocationBody marunouchi), 1) \<and>
   ReverseGeocodeHandler ParseFloat (ReverseGeocode counting_nearest) 0
       [''lat'' \<mapsto> ''north'', ''lon'' \<mapsto> ''139.767125'']
     = ((StatusBadRequest, ErrorBody InvalidLatitudeFormat), 0) \<and>
   ReverseGeocodeHandler ParseFloat (ReverseGeocode counting_nearest) 0 Map.empty
     = ((StatusBadRequest, ErrorBody MissingParametersLatLon), 0)"
  using reverse_geocode_response_mapping[of ParseFloat counting_nearest 0
      "[''lat'' \<mapsto> ''35.681236'', ''lon'' \<mapsto> ''139.767125'']"]
    reverse_geocode_response_mapping[of ParseFloat counting_nearest 0
      "[''lat'' \<mapsto> ''north'', ''lon'' \<mapsto> ''139.767125'']"]
    reverse_geocode_response_mapping[of ParseFloat counting_nearest 0 Map.empty]
  by (simp add: Query_simps ParseFloat_scenario outside_def counting_nearest_def)

text \<open>C4 as stated fails: the request with latitude 95 has well-formed parameters
  and is answered with status 500, not 400.\<close>

theorem reverse_geocode_out_of_range_counterexample:
  "ParseFloat ''95'' = Some (Fin 95) \<and> ParseFloat ''0'' = Some (Fin 0) \<and>
   outside (- 90) 90 (Fin 95) \<and>
   reverse_geocode_endpoint ParseFloat demo_engine [''lat'' \<mapsto> ''95'', ''lon'' \<mapsto> ''0'']
     = (StatusInternalServerError, ErrorBody InternalServerError) \<and>
   StatusInternalServerError \<noteq> StatusBadRequest"
  by (simp add: reverse_geocode_endpoint_def ReverseGeocodeHandler_def ReverseGeocode_def
      Query_simps ParseFloat_scenario outside_def StatusInternalServerError_def
      StatusBadRequest_def)

text \<open>Beside C4: the repository of the program reports an empty result as an error,
  so on the wired endpoint a request with no stored location in reach is answered
  with status 500; the handler's answer 404 needs a repository that returns neither a
  location nor an error.\<close>

lemma reverse_geocode_endpoint_no_rows:
  "FindNearestLocation empty_engine (Fin 35) (Fin 139) = Inl NoLocationFound \<and>
   reverse_geocode_endpoint ParseFloat empty_engine [''lat'' \<mapsto> ''35.675'', ''lon'' \<mapsto> ''139.732'']
     = (StatusInternalServerError, ErrorBody InternalServerError)"
  by (simp add: reverse_geocode_endpoint_def ReverseGeocodeHandler_def ReverseGeocode_def
      FindNearestLocation_def nearest_statement_def empty_engine_def demo_engine_def
      Query_simps ParseFloat_scenario)

lemma search_statement_sorted:
  "sorted_wrt (\<lambda>a b. ts_rank e query b \<le> ts_rank e query a) (search_statement e query)"
proof -
  let ?xs = "sort_key (ts_rank e query) (filter (ts_match e query) (rows e))"
  have "sorted (map (ts_rank e query) ?xs)" by (rule sorted_sort_key)
  then have "sorted_wrt (\<lambda>a b. ts_rank e query a \<le> ts_rank e query b) ?xs"
    by (simp add: sorted_map)
  then have "sorted_wrt (\<lambda>a b. ts_rank e query b \<le> ts_rank e query a) (rev ?xs)"
    by (simp add: sorted_wrt_rev)
  then show ?thesis
    unfolding search_statement_def by (rule sorted_wrt_take)
qed

lemma search_statement_rows:
  "set (search_statement e query) \<subseteq> {l \<in> set (rows e). ts_match e query l}"
proof
  fix l
  assume "l \<in> set (search_statement e query)"
  then have "l \<in> set (rev (sort_key (ts_rank e query) (filter (ts_match e query) (rows e))))"
    unfolding search_statement_def by (rule in_set_takeD)
  then show "l \<in> {l \<in> set (rows e). ts_match e query l}" by simp
qed

text \<open>
  C10. The search statement returns the rows that match the query in descending order
  of rank, cut after 10. So every result of \<open>SearchLocationsByText\<close> has at most 10
  locations, and every answer of \<open>/geocode\<close> that carries locations has status 200
  and at most 10 of them, however many rows of the store match.
\<close>

theorem forward_geocode_at_most_ten:
  "length (search_statement e query) = min 10 (length (filter (ts_match e query) (rows e))) \<and>
   sorted_wrt (\<lambda>a b. ts_rank e query b \<le> ts_rank e query a) (search_statement e query) \<and>
   set (search_statement e query) \<subseteq> {l \<in> set (rows e). ts_match e query l} \<and>
   (SearchLocationsByText e query = Inr locs \<longrightarrow>
      locs = search_statement e query \<and> length locs \<le> 10) \<and>
   (geocode_endpoint e c = (status, LocationsBody found) \<longrightarrow>
      status = StatusOK \<and> found = search_statement e (Query c ''q'') \<and> length found \<le> 10) \<and>
   geocode_endpoint e c \<noteq> (status, LocationBody l)"
proof (intro conjI impI)
  show len: "length (search_statement e query)
               = min 10 (length (filter (ts_match e query) (rows e)))"
    by (simp add: search_statement_def min.commute)
  show "sorted_wrt (\<lambda>a b. ts_rank e query b \<le> ts_rank e query a) (search_statement e query)"
    by (rule search_statement_sorted)
  show "set (search_statement e query) \<subseteq> {l \<in> set (rows e). ts_match e query l}"
    by (rule search_statement_rows)
  show "geocode_endpoint e c \<noteq> (status, LocationBody l)"
    by (auto simp add: geocode_endpoint_def GeoCode_def Geocode_def Let_def
        split: prod.splits sum.splits)
next
  assume "SearchLocationsByText e query = Inr locs"
  then have eq: "locs = search_statement e query"
    by (auto simp add: SearchLocationsByText_def split: option.splits search_fault.splits)
  then show "locs = search_statement e query" .
  from eq show "length locs \<le> 10" by (simp add: search_statement_def)
next
  assume h: "geocode_endpoint e c = (status, LocationsBody found)"
  then have both: "status = StatusOK \<and> found = search_statement e (Query c ''q'')"
    by (auto simp add: geocode_endpoint_def GeoCode_def Geocode_def Let_def
        SearchLocationsByText_def
        split: prod.splits sum.splits if_splits option.splits search_fault.splits)
  then show "status = StatusOK" by simp
  from both show "found = search_statement e (Query c ''q'')" by simp
  from both show "length found \<le> 10" by (simp add: search_statement_def)
qed

theorem forward_geocode_at_most_ten_witness:
  "length (filter (ts_match crowded_engine ''Tokyo'') (rows crowded_engine)) = 12 \<and>
   length (search_statement crowded_engine ''Tokyo'') = 10 \<and>
   geocode_endpoint crowded_engine [''q'' \<mapsto> ''Tokyo'']
     = (StatusOK, LocationsBody (search_statement crowded_engine ''Tokyo''))"
proof -
  have rows12: "length (filter (ts_match crowded_engine ''Tokyo'') (rows crowded_engine)) = 12"
    by (simp add: crowded_engine_def demo_engine_def)
  have answer: "geocode_endpoint crowded_engine [''q'' \<mapsto> ''Tokyo'']
     = (StatusOK, LocationsBody (search_statement crowded_engine ''Tokyo''))"
    by (simp add: geocode_endpoint_def GeoCode_def Geocode_def Query_simps
        SearchLocationsByText_def crowded_engine_def demo_engine_def)
  note inst = forward_geocode_at_most_ten[where e = crowded_engine and query = "''Tokyo''"
      and c = "[''q'' \<mapsto> ''Tokyo'']" and status = StatusOK
      and found = "search_statement crowded_engine ''Tokyo''"]
  from inst[THEN conjunct1] rows12
    inst[THEN conjunct2, THEN conjunct2, THEN conjunct2, THEN conjunct2, THEN conjunct1,
      rule_format, OF answer]
  show ?thesis using answer by simp
qed


end
